theory Spec2Isabelle
  imports Main "HOL-Library.Word" "HOL-Library.AList"
begin

section \<open>Python values: bytes, errors, integers, hex strings, dictionaries\<close>

text \<open>
  Python \<^verbatim>\<open>bytes\<close> are lists of 8-bit words, \<^verbatim>\<open>str\<close> is \<open>string\<close>, Python's unbounded
  \<^verbatim>\<open>int\<close> is \<open>int\<close>. Every raise of the source is a value \<open>Inl e\<close> of the result type
  \<open>error + 'a\<close>; an \<^verbatim>\<open>assert\<close> that fails is \<open>AssertionError\<close> with the message of the source
  (or, where the source gives none, the asserted expression).
\<close>

type_synonym byte = "8 word"
type_synonym bytes = "byte list"

datatype error =
    AssertionError string
  | IndexError
  | KeyError
  | ValueError string
  | OverflowError
  | UnboundLocalError string
  | BTClibValueError string

definition rbind :: "error + 'a \<Rightarrow> ('a \<Rightarrow> error + 'b) \<Rightarrow> error + 'b" where
  "rbind m f = (case m of Inl e \<Rightarrow> Inl e | Inr x \<Rightarrow> f x)"

text \<open>\<open>b"".join(parts)\<close> where every part may raise: the first raise, left to right, wins.\<close>

fun concat_res :: "(error + 'a list) list \<Rightarrow> error + 'a list" where
  "concat_res [] = Inr []"
| "concat_res (p # ps) =
     (case p of Inl e \<Rightarrow> Inl e
      | Inr x \<Rightarrow> (case concat_res ps of Inl e \<Rightarrow> Inl e | Inr xs \<Rightarrow> Inr (x @ xs)))"

text \<open>A \<^verbatim>\<open>for\<close> loop whose body may raise, threading the loop's variables as a state.\<close>

fun fold_res :: "('a \<Rightarrow> 's \<Rightarrow> error + 's) \<Rightarrow> 'a list \<Rightarrow> 's \<Rightarrow> error + 's" where
  "fold_res f [] s = Inr s"
| "fold_res f (x # xs) s = (case f x s of Inl e \<Rightarrow> Inl e | Inr s' \<Rightarrow> fold_res f xs s')"

text \<open>A list comprehension whose element expression may raise.\<close>

fun map_res :: "('a \<Rightarrow> error + 'b) \<Rightarrow> 'a list \<Rightarrow> error + 'b list" where
  "map_res f [] = Inr []"
| "map_res f (x # xs) =
     (case f x of Inl e \<Rightarrow> Inl e
      | Inr y \<Rightarrow> (case map_res f xs of Inl e \<Rightarrow> Inl e | Inr ys \<Rightarrow> Inr (y # ys)))"

text \<open>The subscript \<^verbatim>\<open>xs[i]\<close> of a list: an index from \<open>-len(xs)\<close> to \<open>-1\<close> reads from
  the end, and one outside \<open>-len(xs) .. len(xs) - 1\<close> raises IndexError.\<close>

definition py_index :: "'a list \<Rightarrow> int \<Rightarrow> error + 'a" where
  "py_index xs i =
     (if 0 \<le> i \<and> i < int (length xs) then Inr (xs ! nat i)
      else if i < 0 \<and> - int (length xs) \<le> i then Inr (xs ! nat (int (length xs) + i))
      else Inl IndexError)"

subsection \<open>\<^verbatim>\<open>int.to_bytes(n, "little")\<close> and \<^verbatim>\<open>int.from_bytes(b, "little")\<close>\<close>

fun le_bytes :: "nat \<Rightarrow> nat \<Rightarrow> bytes" where
  "le_bytes 0 n = []"
| "le_bytes (Suc k) n = of_nat (n mod 256) # le_bytes k (n div 256)"

fun le_nat :: "bytes \<Rightarrow> nat" where
  "le_nat [] = 0"
| "le_nat (b # bs) = unat b + 256 * le_nat bs"

definition int_to_bytes :: "nat \<Rightarrow> int \<Rightarrow> error + bytes" where
  "int_to_bytes k i =
     (if i < 0 \<or> 256 ^ k \<le> i then Inl OverflowError else Inr (le_bytes k (nat i)))"

definition int_from_bytes :: "bytes \<Rightarrow> int" where
  "int_from_bytes bs = int (le_nat bs)"

subsection \<open>\<^verbatim>\<open>bytes.hex()\<close>, \<^verbatim>\<open>bytes.fromhex(s)\<close>, \<^verbatim>\<open>str.upper()\<close>\<close>

definition hexdigit :: "nat \<Rightarrow> char" where
  "hexdigit n = ''0123456789abcdef'' ! n"

fun hex :: "bytes \<Rightarrow> string" where
  "hex [] = []"
| "hex (b # bs) = hexdigit (unat b div 16) # hexdigit (unat b mod 16) # hex bs"

definition hexval :: "char \<Rightarrow> nat option" where
  "hexval c =
     (let n = of_char c :: nat in
      if 48 \<le> n \<and> n \<le> 57 then Some (n - 48)
      else if 97 \<le> n \<and> n \<le> 102 then Some (n - 87)
      else if 65 \<le> n \<and> n \<le> 70 then Some (n - 55)
      else None)"

definition is_space :: "char \<Rightarrow> bool" where
  "is_space c = (of_char c \<in> {32, 9, 10, 11, 12, 13 :: nat})"

text \<open>\<^verbatim>\<open>bytes.fromhex\<close> skips ASCII whitespace in front of a pair of digits, accepts digits
  of either case, and raises ValueError on anything else (an odd digit included).\<close>

fun fromhex :: "string \<Rightarrow> error + bytes" where
  "fromhex [] = Inr []"
| "fromhex [c] =
     (if is_space c then Inr []
      else Inl (ValueError ''non-hexadecimal number found in fromhex() arg''))"
| "fromhex (c # d # cs) =
     (if is_space c then fromhex (d # cs)
      else (case (hexval c, hexval d) of
          (Some h, Some l) \<Rightarrow>
            (case fromhex cs of Inl e \<Rightarrow> Inl e | Inr bs \<Rightarrow> Inr (of_nat (16 * h + l) # bs))
        | _ \<Rightarrow> Inl (ValueError ''non-hexadecimal number found in fromhex() arg'')))"

definition upper_char :: "char \<Rightarrow> char" where
  "upper_char c =
     (let n = of_char c :: nat in if 97 \<le> n \<and> n \<le> 122 then char_of (n - 32) else c)"

definition upper :: "string \<Rightarrow> string" where
  "upper s = map upper_char s"

subsection \<open>Dictionaries\<close>

text \<open>
  A Python \<^verbatim>\<open>dict\<close> keeps its entries in insertion order, and \<^verbatim>\<open>list(d.values())\<close> reads
  that order, so a dictionary is an association list with distinct keys. \<^verbatim>\<open>d[k] = v\<close> is
  \<^const>\<open>AList.update\<close>: it replaces the value of a key in place and appends a new key at
  the end. \<^verbatim>\<open>d.update(e)\<close> stores the entries of \<open>e\<close> in their order. Equality of
  dictionaries does not look at the order.
\<close>

type_synonym ('k, 'v) dict = "('k \<times> 'v) list"

definition dict_update :: "('k, 'v) dict \<Rightarrow> ('k, 'v) dict \<Rightarrow> ('k, 'v) dict" where
  "dict_update d e = fold (\<lambda>(k, v). AList.update k v) e d"

definition dict_keys :: "('k, 'v) dict \<Rightarrow> 'k list" where
  "dict_keys d = map fst d"

definition dict_values :: "('k, 'v) dict \<Rightarrow> 'v list" where
  "dict_values d = map snd d"

definition dict_eq_by :: "('v \<Rightarrow> 'v \<Rightarrow> bool) \<Rightarrow> ('k, 'v) dict \<Rightarrow> ('k, 'v) dict \<Rightarrow> bool" where
  "dict_eq_by veq d e =
     (length d = length e \<and>
      list_all (\<lambda>(k, v). case map_of e k of None \<Rightarrow> False | Some w \<Rightarrow> veq v w) d)"

definition dict_eq :: "('k, 'v) dict \<Rightarrow> ('k, 'v) dict \<Rightarrow> bool" where
  "dict_eq d e = dict_eq_by (=) d e"

section \<open>The varint codec\<close>

text \<open>
  Modelled from the spec: \<^verbatim>\<open>varint.encode\<close> and \<^verbatim>\<open>varint.decode\<close> (btclib/varint.py is
  not among the source files). Section 4.1: the minimal Bitcoin compact-size form;
  decoding peeks the first byte to choose the 1, 3, 5 or 9 byte form and fails on a
  truncated buffer; encoding rejects negative values. \<open>varint_decode\<close> returns the
  integer and the unread rest of the stream.
\<close>

definition varint_encode :: "int \<Rightarrow> error + bytes" where
  "varint_encode i =
     (if i < 0 then Inl (ValueError ''negative integer'')
      else if i < 0xFD then Inr [of_int i]
      else if i \<le> 0xFFFF then Inr (0xFD # le_bytes 2 (nat i))
      else if i \<le> 0xFFFFFFFF then Inr (0xFE # le_bytes 4 (nat i))
      else if i \<le> 0xFFFFFFFFFFFFFFFF then Inr (0xFF # le_bytes 8 (nat i))
      else Inl (ValueError ''integer too big for varint encoding''))"

definition read_le :: "nat \<Rightarrow> bytes \<Rightarrow> error + (int \<times> bytes)" where
  "read_le k s =
     (if length s < k then Inl (ValueError ''not enough data'')
      else Inr (int_from_bytes (take k s), drop k s))"

definition varint_decode :: "bytes \<Rightarrow> error + (int \<times> bytes)" where
  "varint_decode s =
     (case s of
        [] \<Rightarrow> Inl (ValueError ''not enough data'')
      | b # rest \<Rightarrow>
          if b = 0xFD then read_le 2 rest
          else if b = 0xFE then read_le 4 rest
          else if b = 0xFF then read_le 8 rest
          else Inr (uint b, rest))"

section \<open>The key-value map codec\<close>

text \<open>
  \<^verbatim>\<open>deserialize_map\<close> (psbt.py). The \<^verbatim>\<open>while True\<close> loop is \<open>deserialize_map_loop\<close> on the
  unread data and the \<^verbatim>\<open>partial_map\<close> built so far. As in the source, the loop steps over
  a length by the size of its minimal encoding (\<^verbatim>\<open>len(varint.encode(key_len))\<close>), slices
  never raise (\<^verbatim>\<open>data[:key_len]\<close> of a short buffer is the short buffer), and \<^verbatim>\<open>data[0]\<close>
  of an exhausted buffer raises IndexError.
\<close>

function deserialize_map_loop ::
  "bytes \<Rightarrow> (bytes, bytes) dict \<Rightarrow> error + ((bytes, bytes) dict \<times> bytes)" where
  "deserialize_map_loop data partial_map =
     (case data of
        [] \<Rightarrow> Inl IndexError
      | b # rest \<Rightarrow>
          if b = 0 then Inr (partial_map, rest)
          else
            (case varint_decode data of
               Inl e \<Rightarrow> Inl e
             | Inr (key_len, _) \<Rightarrow>
                 (case varint_encode key_len of
                    Inl e \<Rightarrow> Inl e
                  | Inr enc_k \<Rightarrow>
                      (case varint_decode (drop (nat key_len) (drop (length enc_k) data)) of
                         Inl e \<Rightarrow> Inl e
                       | Inr (value_len, _) \<Rightarrow>
                           (case varint_encode value_len of
                              Inl e \<Rightarrow> Inl e
                            | Inr enc_v \<Rightarrow>
                                (let data1 = drop (length enc_k) data;
                                     key = take (nat key_len) data1;
                                     data2 = drop (nat key_len) data1;
                                     data3 = drop (length enc_v) data2;
                                     val = take (nat value_len) data3;
                                     data4 = drop (nat value_len) data3
                                 in if key \<in> set (dict_keys partial_map)
                                    then Inl (AssertionError ''Malformed psbt: duplicate keys'')
                                    else deserialize_map_loop data4
                                           (partial_map @ [(key, val)])))))))"
  by pat_completeness auto
termination
  apply (relation "measure (\<lambda>(data, partial_map). length data)")
   apply simp
  subgoal for data partial_map b rest x2 key_len y enc_k
    apply (subgoal_tac "enc_k \<noteq> []")
     apply (cases enc_k; simp)
    apply (auto simp: varint_encode_def split: if_splits)
    done
  done

declare deserialize_map_loop.simps [simp del]

definition deserialize_map :: "bytes \<Rightarrow> error + ((bytes, bytes) dict \<times> bytes)" where
  "deserialize_map data =
     (if length data = 0 then Inl (AssertionError ''Malformed psbt: at least a map is missing'')
      else deserialize_map_loop data [])"

text \<open>
  The framing of one entry as every \<^verbatim>\<open>serialize\<close> method of psbt.py writes it (for instance
  the loop over \<^verbatim>\<open>self.unknown\<close>): the length of the key as a varint, the key, the length of
  the value as a varint, the value. \<open>kv_entries\<close> is a sequence of entries, the body of a
  serialized map in front of its terminating zero byte.
\<close>

definition kv_entry :: "bytes \<Rightarrow> bytes \<Rightarrow> error + bytes" where
  "kv_entry key val =
     concat_res [varint_encode (int (length key)), Inr key,
                 varint_encode (int (length val)), Inr val]"

definition kv_entries :: "(bytes, bytes) dict \<Rightarrow> error + bytes" where
  "kv_entries kvs = concat_res (map (\<lambda>(k, v). kv_entry k v) kvs)"


section \<open>Transactions and the collaborators of the PSBT codec\<close>

text \<open>
  Script tokens (\<^verbatim>\<open>Token = Union[int, str, bytes]\<close>): \<^verbatim>\<open>finalize_psbt\<close> builds scripts out of
  upper-case hex strings and the integer 0.
\<close>

datatype token = TInt int | TStr string | TBytes bytes

text \<open>
  Modelled from the spec: the type declarations of \<^verbatim>\<open>TxIn\<close> and \<^verbatim>\<open>TxOut\<close> (tx_in.py and
  tx_out.py are not among the source files). A transaction input references a previous
  output by transaction id and index and carries its unlocking data (\<^verbatim>\<open>scriptSig\<close>,
  \<^verbatim>\<open>txinwitness\<close>); an output carries a value and a locking script. The fields are the
  attributes psbt.py and tx.py read and write.
\<close>

record txin =
  prevout_hash :: string
  prevout_n :: int
  scriptSig :: "token list"
  nSequence :: int
  txinwitness :: "string list"

record txout =
  nValue :: int
  scriptPubKey :: "token list"

text \<open>\<^verbatim>\<open>class Tx\<close> (tx.py).\<close>

record tx =
  nVersion :: int
  nLockTime :: int
  vin :: "txin list"
  vout :: "txout list"

text \<open>
  The collaborators psbt.py and tx.py import from modules that are not among the source
  files: the script codec, the codecs and validity checks of \<^verbatim>\<open>TxIn\<close> and \<^verbatim>\<open>TxOut\<close>, the
  witness codec, the hash functions, the script-hash payload extractor
  (\<open>payload_from_scriptPubKey\<close> is the component \<^verbatim>\<open>[1]\<close> of the source's result) and
  base64 of the standard library. They are parameters of the model. The functions that
  read from a stream take the unread bytes and return the value with the rest.
\<close>

record collab =
  script_encode :: "token list \<Rightarrow> error + bytes"
  script_decode :: "bytes \<Rightarrow> error + token list"
  script_serialize :: "token list \<Rightarrow> error + bytes"
  txin_serialize :: "txin \<Rightarrow> error + bytes"
  txin_deserialize :: "bytes \<Rightarrow> error + (txin \<times> bytes)"
  txin_assert_valid :: "txin \<Rightarrow> error + unit"
  txout_serialize :: "txout \<Rightarrow> error + bytes"
  txout_deserialize :: "bytes \<Rightarrow> error + (txout \<times> bytes)"
  txout_assert_valid :: "txout \<Rightarrow> error + unit"
  witness_serialize :: "string list \<Rightarrow> error + bytes"
  witness_deserialize :: "bytes \<Rightarrow> error + (string list \<times> bytes)"
  hash160 :: "bytes \<Rightarrow> bytes"
  sha256 :: "bytes \<Rightarrow> bytes"
  hash256 :: "bytes \<Rightarrow> bytes"
  payload_from_scriptPubKey :: "token list \<Rightarrow> error + bytes"
  b64encode :: "bytes \<Rightarrow> string"
  b64decode :: "string \<Rightarrow> error + bytes"

subsection \<open>tx.py\<close>

text \<open>\<^verbatim>\<open>Tx.assert_valid\<close>.\<close>

definition Tx_assert_valid :: "collab \<Rightarrow> tx \<Rightarrow> error + unit" where
  "Tx_assert_valid E t =
     (if vin t = [] then Inl (ValueError ''A transaction must have at least one input'')
      else
        (case fold_res (\<lambda>tx_in _. txin_assert_valid E tx_in) (vin t) () of
           Inl e \<Rightarrow> Inl e
         | Inr _ \<Rightarrow>
             if vout t = [] then Inl (ValueError ''A transaction must have at least one output'')
             else fold_res (\<lambda>tx_out _. txout_assert_valid E tx_out) (vout t) ()))"

text \<open>\<^verbatim>\<open>Tx.serialize(include_witness, assert_valid=True)\<close>.\<close>

definition Tx_serialize :: "collab \<Rightarrow> bool \<Rightarrow> tx \<Rightarrow> error + bytes" where
  "Tx_serialize E include_witness t =
     (case Tx_assert_valid E t of
        Inl e \<Rightarrow> Inl e
      | Inr _ \<Rightarrow>
          (let witness_flag = list_ex (\<lambda>tx_input. txinwitness tx_input \<noteq> []) (vin t) in
           case concat_res
                  [int_to_bytes 4 (nVersion t),
                   varint_encode (int (length (vin t))),
                   concat_res (map (txin_serialize E) (vin t)),
                   varint_encode (int (length (vout t))),
                   concat_res (map (txout_serialize E) (vout t)),
                   (if witness_flag \<and> include_witness
                    then concat_res (map (\<lambda>tx_input. witness_serialize E (txinwitness tx_input))
                                         (vin t))
                    else Inr []),
                   int_to_bytes 4 (nLockTime t)] of
             Inl e \<Rightarrow> Inl e
           | Inr out \<Rightarrow>
               Inr (if witness_flag \<and> include_witness
                    then take 4 out @ [0x00, 0x01] @ drop 4 out else out)))"

text \<open>The property \<^verbatim>\<open>txid\<close>: \<^verbatim>\<open>hash256(self.serialize(False))[::-1].hex()\<close>.\<close>

definition Tx_txid :: "collab \<Rightarrow> tx \<Rightarrow> error + string" where
  "Tx_txid E t =
     (case Tx_serialize E False t of Inl e \<Rightarrow> Inl e | Inr s \<Rightarrow> Inr (hex (rev (hash256 E s))))"

text \<open>\<^verbatim>\<open>[f(stream) for _ in range(n)]\<close>: \<open>n\<close> values read one after the other.\<close>

fun read_many :: "(bytes \<Rightarrow> error + ('a \<times> bytes)) \<Rightarrow> nat \<Rightarrow> bytes \<Rightarrow> error + ('a list \<times> bytes)" where
  "read_many f 0 s = Inr ([], s)"
| "read_many f (Suc n) s =
     (case f s of
        Inl e \<Rightarrow> Inl e
      | Inr (x, s') \<Rightarrow>
          (case read_many f n s' of Inl e \<Rightarrow> Inl e | Inr (xs, s'') \<Rightarrow> Inr (x # xs, s'')))"

text \<open>The loop \<^verbatim>\<open>for tx_input in tx.vin: tx_input.txinwitness = witness_deserialize(stream)\<close>.\<close>

fun read_witnesses :: "collab \<Rightarrow> txin list \<Rightarrow> bytes \<Rightarrow> error + (txin list \<times> bytes)" where
  "read_witnesses E [] s = Inr ([], s)"
| "read_witnesses E (tx_input # ins) s =
     (case witness_deserialize E s of
        Inl e \<Rightarrow> Inl e
      | Inr (w, s') \<Rightarrow>
          (case read_witnesses E ins s' of
             Inl e \<Rightarrow> Inl e
           | Inr (ins', s'') \<Rightarrow> Inr (tx_input\<lparr>txinwitness := w\<rparr> # ins', s'')))"

text \<open>
  \<^verbatim>\<open>Tx.deserialize(data, assert_valid=True)\<close>. \<^verbatim>\<open>stream.read(4)\<close> returns the bytes that are
  left when fewer than four are, and \<^verbatim>\<open>int.from_bytes\<close> of those does not raise.
\<close>

definition Tx_deserialize :: "collab \<Rightarrow> bytes \<Rightarrow> error + tx" where
  "Tx_deserialize E data =
     (let version = int_from_bytes (take 4 data);
          s0 = drop 4 data;
          witness_flag = (take 2 s0 = [0x00, 0x01]);
          s1 = (if witness_flag then drop 2 s0 else s0)
      in case varint_decode s1 of
           Inl e \<Rightarrow> Inl e
         | Inr (input_count, s2) \<Rightarrow>
             (case read_many (txin_deserialize E) (nat input_count) s2 of
                Inl e \<Rightarrow> Inl e
              | Inr (ins, s3) \<Rightarrow>
                  (case varint_decode s3 of
                     Inl e \<Rightarrow> Inl e
                   | Inr (output_count, s4) \<Rightarrow>
                       (case read_many (txout_deserialize E) (nat output_count) s4 of
                          Inl e \<Rightarrow> Inl e
                        | Inr (outs, s5) \<Rightarrow>
                            (case (if witness_flag then read_witnesses E ins s5 else Inr (ins, s5)) of
                               Inl e \<Rightarrow> Inl e
                             | Inr (ins', s6) \<Rightarrow>
                                 (let t = \<lparr>nVersion = version,
                                           nLockTime = int_from_bytes (take 4 s6),
                                           vin = ins', vout = outs\<rparr>
                                  in case Tx_assert_valid E t of
                                       Inl e \<Rightarrow> Inl e
                                     | Inr _ \<Rightarrow> Inr t))))))"


section \<open>The per-role records of psbt.py\<close>

text \<open>
  An entry of \<^verbatim>\<open>hd_keypaths\<close> is a dictionary with the three keys \<^verbatim>\<open>"xpub"\<close>,
  \<^verbatim>\<open>"fingerprint"\<close> and \<^verbatim>\<open>"derivation_path"\<close>, each a hex string.
\<close>

record hd_keypath =
  xpub :: string
  fingerprint :: string
  derivation_path :: string

text \<open>\<^verbatim>\<open>class PsbtInput\<close>; \<open>PsbtInput_default\<close> holds the defaults of the dataclass.\<close>

record psbt_input =
  non_witness_utxo :: "tx option"
  witness_utxo :: "txout option"
  partial_sigs :: "(string, string) dict"
  sighash :: "int option"
  redeem_script :: "token list"
  witness_script :: "token list"
  hd_keypaths :: "hd_keypath list"
  final_script_sig :: "token list"
  final_script_witness :: "string list"
  por_commitment :: "string option"
  proprietary :: "(int, (string, string) dict) dict"
  unknown :: "(string, string) dict"

definition PsbtInput_default :: psbt_input where
  "PsbtInput_default =
     \<lparr>non_witness_utxo = None, witness_utxo = None, partial_sigs = [], sighash = Some 0,
      redeem_script = [], witness_script = [], hd_keypaths = [], final_script_sig = [],
      final_script_witness = [], por_commitment = None, proprietary = [], unknown = []\<rparr>"

text \<open>\<^verbatim>\<open>class PsbtOutput\<close>; its fields carry the prefix \<open>out_\<close>.\<close>

record psbt_output =
  out_redeem_script :: "token list"
  out_witness_script :: "token list"
  out_hd_keypaths :: "hd_keypath list"
  out_proprietary :: "(int, (string, string) dict) dict"
  out_unknown :: "(string, string) dict"

definition PsbtOutput_default :: psbt_output where
  "PsbtOutput_default =
     \<lparr>out_redeem_script = [], out_witness_script = [], out_hd_keypaths = [],
      out_proprietary = [], out_unknown = []\<rparr>"

text \<open>\<^verbatim>\<open>class Psbt\<close>; the global extra data carries the prefix \<open>psbt_\<close>.\<close>

record psbt =
  tx :: tx
  inputs :: "psbt_input list"
  outputs :: "psbt_output list"
  version :: "int option"
  psbt_hd_keypaths :: "hd_keypath list"
  psbt_proprietary :: "(int, (string, string) dict) dict"
  psbt_unknown :: "(string, string) dict"

subsection \<open>What the three decoders share\<close>

text \<open>The dictionary a decoder appends to \<^verbatim>\<open>hd_keypaths\<close> for a derivation key.\<close>

definition keypath_of :: "bytes \<Rightarrow> bytes \<Rightarrow> hd_keypath" where
  "keypath_of key val =
     \<lparr>xpub = hex (drop 1 key), fingerprint = hex (take 4 val),
      derivation_path = hex (drop 4 val)\<rparr>"

text \<open>
  The branch of the tag \<open>0xFC\<close>: the prefix is a varint after the tag byte, the rest of
  the key (stepped over by the size of the prefix's minimal encoding) is the sub-key.
\<close>

definition proprietary_store ::
  "bytes \<Rightarrow> bytes \<Rightarrow> (int, (string, string) dict) dict
     \<Rightarrow> error + (int, (string, string) dict) dict" where
  "proprietary_store key val prop =
     (case varint_decode (drop 1 key) of
        Inl e \<Rightarrow> Inl e
      | Inr (prefix, _) \<Rightarrow>
          (case varint_encode prefix of
             Inl e \<Rightarrow> Inl e
           | Inr enc \<Rightarrow>
               Inr (AList.update prefix
                      (AList.update (hex (drop (1 + length enc) key)) (hex val)
                         (case map_of prop prefix of None \<Rightarrow> [] | Some d \<Rightarrow> d))
                      prop)))"

subsection \<open>What the three serializers share\<close>

text \<open>\<^verbatim>\<open>varint.encode(len(x)) + x\<close> for an \<open>x\<close> whose computation may raise.\<close>

definition with_len :: "error + bytes \<Rightarrow> error + bytes" where
  "with_len m =
     (case m of
        Inl e \<Rightarrow> Inl e
      | Inr x \<Rightarrow> (case varint_encode (int (length x)) of Inl e \<Rightarrow> Inl e | Inr n \<Rightarrow> Inr (n @ x)))"

text \<open>\<^verbatim>\<open>varint.encode(len(value) // 2) + bytes.fromhex(value)\<close> for a hex string.\<close>

definition hex_with_len :: "string \<Rightarrow> error + bytes" where
  "hex_with_len s = concat_res [varint_encode (int (length s div 2)), fromhex s]"

text \<open>The loop over \<^verbatim>\<open>self.hd_keypaths\<close>; \<open>pre\<close> is the literal with the key length and the
  tag (\<^verbatim>\<open>b"\x22\x06"\<close>, \<^verbatim>\<open>b"\x22\x02"\<close>, \<^verbatim>\<open>b"\x4f\x01"\<close>).\<close>

definition serialize_hd_keypaths :: "bytes \<Rightarrow> hd_keypath list \<Rightarrow> error + bytes" where
  "serialize_hd_keypaths pre ks =
     concat_res (map (\<lambda>k. concat_res
        [Inr pre, fromhex (xpub k),
         with_len (concat_res [fromhex (fingerprint k), fromhex (derivation_path k)])]) ks)"

text \<open>The loops over \<^verbatim>\<open>self.proprietary\<close> and \<^verbatim>\<open>self.unknown\<close>.\<close>

definition serialize_proprietary :: "(int, (string, string) dict) dict \<Rightarrow> error + bytes" where
  "serialize_proprietary prop =
     concat_res (map (\<lambda>(owner, dictionary).
        concat_res (map (\<lambda>(key, val). concat_res
           [with_len (concat_res [Inr [0xFC], varint_encode owner, fromhex key]),
            hex_with_len val]) dictionary)) prop)"

definition serialize_unknown :: "(string, string) dict \<Rightarrow> error + bytes" where
  "serialize_unknown u =
     concat_res (map (\<lambda>(key, val). concat_res [hex_with_len key, hex_with_len val]) u)"

subsection \<open>\<^verbatim>\<open>PsbtInput\<close>\<close>

text \<open>
  \<^verbatim>\<open>PsbtInput.decode\<close>: the body of the loop over the items of \<^verbatim>\<open>input_map\<close>, on the record
  of the loop's twelve variables; then the loop. \<^verbatim>\<open>assert_valid\<close> of a record is \<^verbatim>\<open>pass\<close>.
\<close>

definition PsbtInput_decode_item ::
  "collab \<Rightarrow> bytes \<times> bytes \<Rightarrow> psbt_input \<Rightarrow> error + psbt_input" where
  "PsbtInput_decode_item E kv r =
     (case kv of (key, val) \<Rightarrow>
       (case key of
          [] \<Rightarrow> Inl IndexError
        | t # _ \<Rightarrow>
            if t = 0x00 then
              (if length key \<noteq> 1 then Inl (AssertionError ''len(key) == 1'')
               else case Tx_deserialize E val of
                      Inl e \<Rightarrow> Inl e
                    | Inr u \<Rightarrow> Inr (r\<lparr>non_witness_utxo := Some u\<rparr>))
            else if t = 0x01 then
              (if length key \<noteq> 1 then Inl (AssertionError ''len(key) == 1'')
               else case txout_deserialize E val of
                      Inl e \<Rightarrow> Inl e
                    | Inr (u, _) \<Rightarrow> Inr (r\<lparr>witness_utxo := Some u\<rparr>))
            else if t = 0x02 then
              (if length key \<noteq> 33 + 1 then Inl (AssertionError ''len(key) == 33 + 1'')
               else Inr (r\<lparr>partial_sigs :=
                           AList.update (hex (drop 1 key)) (hex val) (partial_sigs r)\<rparr>))
            else if t = 0x03 then
              (if length key \<noteq> 1 then Inl (AssertionError ''len(key) == 1'')
               else if length val \<noteq> 4 then Inl (AssertionError ''len(value) == 4'')
               else Inr (r\<lparr>sighash := Some (int_from_bytes val)\<rparr>))
            else if t = 0x04 then
              (if length key \<noteq> 1 then Inl (AssertionError ''len(key) == 1'')
               else case script_decode E val of
                      Inl e \<Rightarrow> Inl e
                    | Inr s \<Rightarrow> Inr (r\<lparr>redeem_script := s\<rparr>))
            else if t = 0x05 then
              (if length key \<noteq> 1 then Inl (AssertionError ''len(key) == 1'')
               else case script_decode E val of
                      Inl e \<Rightarrow> Inl e
                    | Inr s \<Rightarrow> Inr (r\<lparr>witness_script := s\<rparr>))
            else if t = 0x06 then
              (if length key \<noteq> 33 + 1 then Inl (AssertionError ''len(key) == 33 + 1'')
               else if length val mod 4 \<noteq> 0 then Inl (AssertionError ''len(value) % 4 == 0'')
               else Inr (r\<lparr>hd_keypaths := hd_keypaths r @ [keypath_of key val]\<rparr>))
            else if t = 0x07 then
              (if length key \<noteq> 1 then Inl (AssertionError ''len(key) == 1'')
               else case script_decode E val of
                      Inl e \<Rightarrow> Inl e
                    | Inr s \<Rightarrow> Inr (r\<lparr>final_script_sig := s\<rparr>))
            else if t = 0x08 then
              (if length key \<noteq> 1 then Inl (AssertionError ''len(key) == 1'')
               else case witness_deserialize E val of
                      Inl e \<Rightarrow> Inl e
                    | Inr (w, _) \<Rightarrow> Inr (r\<lparr>final_script_witness := w\<rparr>))
            else if t = 0x09 then
              (if length key \<noteq> 1 then Inl (AssertionError ''len(key) == 1'')
               else Inr (r\<lparr>por_commitment := Some (hex val)\<rparr>))
            else if t = 0xFC then
              (case proprietary_store key val (proprietary r) of
                 Inl e \<Rightarrow> Inl e
               | Inr p \<Rightarrow> Inr (r\<lparr>proprietary := p\<rparr>))
            else Inr (r\<lparr>unknown := AList.update (hex key) (hex val) (unknown r)\<rparr>)))"

definition PsbtInput_decode :: "collab \<Rightarrow> (bytes, bytes) dict \<Rightarrow> error + psbt_input" where
  "PsbtInput_decode E input_map = fold_res (PsbtInput_decode_item E) input_map PsbtInput_default"

text \<open>
  \<^verbatim>\<open>PsbtInput.serialize\<close>: the fields in the order of the source, each guarded by the
  truth value of the field (\<^verbatim>\<open>None\<close>, \<open>0\<close>, an empty string, list or dictionary are false).
\<close>

definition PsbtInput_serialize :: "collab \<Rightarrow> psbt_input \<Rightarrow> error + bytes" where
  "PsbtInput_serialize E r =
     concat_res
       [(case non_witness_utxo r of
           None \<Rightarrow> Inr []
         | Some u \<Rightarrow> concat_res [Inr [0x01, 0x00], with_len (Tx_serialize E True u)]),
        (case witness_utxo r of
           None \<Rightarrow> Inr []
         | Some u \<Rightarrow> concat_res [Inr [0x01, 0x01], with_len (txout_serialize E u)]),
        concat_res (map (\<lambda>(key, val).
           concat_res [Inr [0x22, 0x02], fromhex key, hex_with_len val]) (partial_sigs r)),
        (case sighash r of
           None \<Rightarrow> Inr []
         | Some h \<Rightarrow> if h = 0 then Inr []
                     else concat_res [Inr [0x01, 0x03, 0x04], int_to_bytes 4 h]),
        (if redeem_script r = [] then Inr []
         else concat_res [Inr [0x01, 0x04], script_serialize E (redeem_script r)]),
        (if witness_script r = [] then Inr []
         else concat_res [Inr [0x01, 0x05], script_serialize E (witness_script r)]),
        serialize_hd_keypaths [0x22, 0x06] (hd_keypaths r),
        (if final_script_sig r = [] then Inr []
         else concat_res [Inr [0x01, 0x07], script_serialize E (final_script_sig r)]),
        (if final_script_witness r = [] then Inr []
         else concat_res [Inr [0x01, 0x08],
                          with_len (witness_serialize E (final_script_witness r))]),
        (case por_commitment r of
           None \<Rightarrow> Inr []
         | Some c \<Rightarrow> if c = [] then Inr []
                     else concat_res [Inr [0x01, 0x09], with_len (fromhex c)]),
        serialize_proprietary (proprietary r),
        serialize_unknown (unknown r)]"

subsection \<open>\<^verbatim>\<open>PsbtOutput\<close>\<close>

definition PsbtOutput_decode_item ::
  "collab \<Rightarrow> bytes \<times> bytes \<Rightarrow> psbt_output \<Rightarrow> error + psbt_output" where
  "PsbtOutput_decode_item E kv r =
     (case kv of (key, val) \<Rightarrow>
       (case key of
          [] \<Rightarrow> Inl IndexError
        | t # _ \<Rightarrow>
            if t = 0x00 then
              (if length key \<noteq> 1 then Inl (AssertionError ''len(key) == 1'')
               else case script_decode E val of
                      Inl e \<Rightarrow> Inl e
                    | Inr s \<Rightarrow> Inr (r\<lparr>out_redeem_script := s\<rparr>))
            else if t = 0x01 then
              (if length key \<noteq> 1 then Inl (AssertionError ''len(key) == 1'')
               else case script_decode E val of
                      Inl e \<Rightarrow> Inl e
                    | Inr s \<Rightarrow> Inr (r\<lparr>out_witness_script := s\<rparr>))
            else if t = 0x02 then
              (if length key \<noteq> 33 + 1 then Inl (AssertionError ''len(key) == 33 + 1'')
               else if length val mod 4 \<noteq> 0 then Inl (AssertionError ''len(value) % 4 == 0'')
               else Inr (r\<lparr>out_hd_keypaths := out_hd_keypaths r @ [keypath_of key val]\<rparr>))
            else if t = 0xFC then
              (case proprietary_store key val (out_proprietary r) of
                 Inl e \<Rightarrow> Inl e
               | Inr p \<Rightarrow> Inr (r\<lparr>out_proprietary := p\<rparr>))
            else Inr (r\<lparr>out_unknown := AList.update (hex key) (hex val) (out_unknown r)\<rparr>)))"

definition PsbtOutput_decode :: "collab \<Rightarrow> (bytes, bytes) dict \<Rightarrow> error + psbt_output" where
  "PsbtOutput_decode E output_map =
     fold_res (PsbtOutput_decode_item E) output_map PsbtOutput_default"

definition PsbtOutput_serialize :: "collab \<Rightarrow> psbt_output \<Rightarrow> error + bytes" where
  "PsbtOutput_serialize E r =
     concat_res
       [(if out_redeem_script r = [] then Inr []
         else concat_res [Inr [0x01, 0x00], script_serialize E (out_redeem_script r)]),
        (if out_witness_script r = [] then Inr []
         else concat_res [Inr [0x01, 0x01], script_serialize E (out_witness_script r)]),
        serialize_hd_keypaths [0x22, 0x02] (out_hd_keypaths r),
        serialize_proprietary (out_proprietary r),
        serialize_unknown (out_unknown r)]"


section \<open>The container: \<^verbatim>\<open>class Psbt\<close>\<close>

subsection \<open>The validator\<close>

text \<open>The first loop of \<^verbatim>\<open>Psbt.assert_valid\<close>: the two assertions on one input of the skeleton.\<close>

definition assert_no_unlocking_data :: "txin \<Rightarrow> error + unit" where
  "assert_no_unlocking_data v =
     (if scriptSig v \<noteq> [] then Inl (AssertionError ''vin.scriptSig == []'')
      else if txinwitness v \<noteq> [] then Inl (AssertionError ''vin.txinwitness == []'')
      else Inr ())"

text \<open>
  The last loop keeps a local variable \<^verbatim>\<open>scriptPubKey\<close> across its turns: it is unbound
  (\<open>None\<close>) until a turn with a UTXO binds it, and a later turn without a UTXO reads the
  value an earlier turn left. \<open>bind_scriptPubKey\<close> is the source's
  \<^verbatim>\<open>if non_witness_utxo: ... elif witness_utxo: ...\<close>; \<open>check_txid\<close> tells the first
  occurrence (which asserts the transaction id) from the one under \<^verbatim>\<open>if witness_script\<close>.
\<close>

definition bind_scriptPubKey ::
  "collab \<Rightarrow> bool \<Rightarrow> psbt_input \<Rightarrow> txin \<Rightarrow> token list option \<Rightarrow> error + token list option" where
  "bind_scriptPubKey E check_txid inp tx_in spk =
     (case non_witness_utxo inp of
        Some u \<Rightarrow>
          (case (if check_txid
                 then (case Tx_txid E u of
                         Inl e \<Rightarrow> Inl e
                       | Inr h \<Rightarrow>
                           if h = prevout_hash tx_in then Inr ()
                           else Inl (AssertionError
                                  ''self.inputs[i].non_witness_utxo.txid == txid''))
                 else Inr ()) of
             Inl e \<Rightarrow> Inl e
           | Inr _ \<Rightarrow>
               (case py_index (vout u) (prevout_n tx_in) of
                  Inl e \<Rightarrow> Inl e
                | Inr out \<Rightarrow> Inr (Some (scriptPubKey out))))
      | None \<Rightarrow>
          (case witness_utxo inp of
             Some out \<Rightarrow> Inr (Some (scriptPubKey out))
           | None \<Rightarrow> Inr spk))"

text \<open>\<^verbatim>\<open>assert hash == payload_from_scriptPubKey(scriptPubKey)[1]\<close>: reading the unbound
  variable raises UnboundLocalError.\<close>

definition assert_payload :: "collab \<Rightarrow> bytes \<Rightarrow> token list option \<Rightarrow> error + unit" where
  "assert_payload E h spk =
     (case spk of
        None \<Rightarrow> Inl (UnboundLocalError ''scriptPubKey'')
      | Some s \<Rightarrow>
          (case payload_from_scriptPubKey E s of
             Inl e \<Rightarrow> Inl e
           | Inr payload \<Rightarrow>
               if h = payload then Inr ()
               else Inl (AssertionError ''hash == payload_from_scriptPubKey(scriptPubKey)[1]'')))"

text \<open>One turn of the last loop, for the input \<open>tx_in\<close> at index \<open>i\<close>, from the value of
  \<^verbatim>\<open>scriptPubKey\<close> before the turn to its value after.\<close>

definition assert_valid_input ::
  "collab \<Rightarrow> psbt_input list \<Rightarrow> nat \<times> txin \<Rightarrow> token list option \<Rightarrow> error + token list option" where
  "assert_valid_input E ins itx spk =
     (case itx of (i, tx_in) \<Rightarrow>
       (case py_index ins (int i) of
          Inl e \<Rightarrow> Inl e
        | Inr inp \<Rightarrow>
            (case bind_scriptPubKey E True inp tx_in spk of
               Inl e \<Rightarrow> Inl e
             | Inr spk1 \<Rightarrow>
                 (case (if redeem_script inp \<noteq> []
                        then (case script_encode E (redeem_script inp) of
                                Inl e \<Rightarrow> Inl e
                              | Inr enc \<Rightarrow> assert_payload E (hash160 E enc) spk1)
                        else Inr ()) of
                    Inl e \<Rightarrow> Inl e
                  | Inr _ \<Rightarrow>
                      if witness_script inp \<noteq> []
                      then (case bind_scriptPubKey E False inp tx_in spk1 of
                              Inl e \<Rightarrow> Inl e
                            | Inr spk2 \<Rightarrow>
                                (let spk3 = (if redeem_script inp \<noteq> []
                                             then Some (redeem_script inp) else spk2)
                                 in case script_encode E (witness_script inp) of
                                      Inl e \<Rightarrow> Inl e
                                    | Inr enc \<Rightarrow>
                                        (case assert_payload E (sha256 E enc) spk3 of
                                           Inl e \<Rightarrow> Inl e
                                         | Inr _ \<Rightarrow> Inr spk3)))
                      else Inr spk1))))"

text \<open>\<^verbatim>\<open>Psbt.assert_valid\<close>. The \<^verbatim>\<open>assert_valid\<close> of the input and output records is
  \<^verbatim>\<open>pass\<close>, so the two loops over them do nothing.\<close>

definition Psbt_assert_valid :: "collab \<Rightarrow> psbt \<Rightarrow> error + unit" where
  "Psbt_assert_valid E p =
     (case fold_res (\<lambda>v _. assert_no_unlocking_data v) (vin (tx p)) () of
        Inl e \<Rightarrow> Inl e
      | Inr _ \<Rightarrow>
          (case fold_res (assert_valid_input E (inputs p))
                  (zip [0 ..< length (vin (tx p))] (vin (tx p))) None of
             Inl e \<Rightarrow> Inl e
           | Inr _ \<Rightarrow> Inr ()))"

subsection \<open>Decoding and encoding\<close>

text \<open>The variables of the loop over the global map in \<^verbatim>\<open>Psbt.deserialize\<close>; \<^verbatim>\<open>tx\<close> is
  unbound until the key \<open>0x00\<close> is met.\<close>

record global_vars =
  g_tx :: "tx option"
  g_version :: int
  g_hd_keypaths :: "hd_keypath list"
  g_proprietary :: "(int, (string, string) dict) dict"
  g_unknown :: "(string, string) dict"

definition global_decode_item ::
  "collab \<Rightarrow> bytes \<times> bytes \<Rightarrow> global_vars \<Rightarrow> error + global_vars" where
  "global_decode_item E kv g =
     (case kv of (key, val) \<Rightarrow>
       (case key of
          [] \<Rightarrow> Inl IndexError
        | t # _ \<Rightarrow>
            if t = 0x00 then
              (if length key \<noteq> 1 then Inl (AssertionError ''len(key) == 1'')
               else case Tx_deserialize E val of
                      Inl e \<Rightarrow> Inl e
                    | Inr u \<Rightarrow> Inr (g\<lparr>g_tx := Some u\<rparr>))
            else if t = 0x01 then
              (if length key \<noteq> 78 + 1 then Inl (AssertionError ''len(key) == 78 + 1'')
               else if length val mod 4 \<noteq> 0 then Inl (AssertionError ''len(value) % 4 == 0'')
               else Inr (g\<lparr>g_hd_keypaths := g_hd_keypaths g @ [keypath_of key val]\<rparr>))
            else if t = 0xFB then
              (if length val \<noteq> 4 then Inl (AssertionError ''len(value) == 4'')
               else Inr (g\<lparr>g_version := int_from_bytes val\<rparr>))
            else if t = 0xFC then
              (case proprietary_store key val (g_proprietary g) of
                 Inl e \<Rightarrow> Inl e
               | Inr p \<Rightarrow> Inr (g\<lparr>g_proprietary := p\<rparr>))
            else Inr (g\<lparr>g_unknown := AList.update (hex key) (hex val) (g_unknown g)\<rparr>)))"

text \<open>One turn of the loops that read the input and the output records: a map off the
  data, then the record decoded from it.\<close>

definition read_record ::
  "((bytes, bytes) dict \<Rightarrow> error + 'r) \<Rightarrow> bytes \<Rightarrow> error + ('r \<times> bytes)" where
  "read_record decode data =
     (case deserialize_map data of
        Inl e \<Rightarrow> Inl e
      | Inr (m, data') \<Rightarrow> (case decode m of Inl e \<Rightarrow> Inl e | Inr r \<Rightarrow> Inr (r, data')))"

text \<open>\<^verbatim>\<open>Psbt.deserialize\<close> up to the construction of the object, on the decoded bytes.\<close>

definition Psbt_parse :: "collab \<Rightarrow> bytes \<Rightarrow> error + psbt" where
  "Psbt_parse E data =
     (if take 5 data \<noteq> [0x70, 0x73, 0x62, 0x74, 0xFF]
      then Inl (AssertionError ''Malformed psbt: missing magic bytes'')
      else
        (case deserialize_map (drop 5 data) of
           Inl e \<Rightarrow> Inl e
         | Inr (global_map, data1) \<Rightarrow>
             (case fold_res (global_decode_item E) global_map
                     \<lparr>g_tx = None, g_version = 0, g_hd_keypaths = [], g_proprietary = [],
                      g_unknown = []\<rparr> of
                Inl e \<Rightarrow> Inl e
              | Inr g \<Rightarrow>
                  (case g_tx g of
                     None \<Rightarrow> Inl (UnboundLocalError ''tx'')
                   | Some t \<Rightarrow>
                       (case read_many (read_record (PsbtInput_decode E)) (length (vin t)) data1 of
                          Inl e \<Rightarrow> Inl e
                        | Inr (ins, data2) \<Rightarrow>
                            (case read_many (read_record (PsbtOutput_decode E))
                                    (length (vout t)) data2 of
                               Inl e \<Rightarrow> Inl e
                             | Inr (outs, _) \<Rightarrow>
                                 Inr \<lparr>tx = t, inputs = ins, outputs = outs,
                                      version = Some (g_version g),
                                      psbt_hd_keypaths = g_hd_keypaths g,
                                      psbt_proprietary = g_proprietary g,
                                      psbt_unknown = g_unknown g\<rparr>))))))"

text \<open>\<^verbatim>\<open>Psbt.deserialize\<close>: base64, the parse, then the validator on the new object.\<close>

definition Psbt_deserialize :: "collab \<Rightarrow> string \<Rightarrow> error + psbt" where
  "Psbt_deserialize E s =
     (case b64decode E s of
        Inl e \<Rightarrow> Inl e
      | Inr data \<Rightarrow>
          (case Psbt_parse E data of
             Inl e \<Rightarrow> Inl e
           | Inr p \<Rightarrow> (case Psbt_assert_valid E p of Inl e \<Rightarrow> Inl e | Inr _ \<Rightarrow> Inr p)))"

text \<open>\<^verbatim>\<open>Psbt.serialize\<close>: the bytes, then their base64 text.\<close>

definition Psbt_serialize_bytes :: "collab \<Rightarrow> psbt \<Rightarrow> error + bytes" where
  "Psbt_serialize_bytes E p =
     concat_res
       [Inr [0x70, 0x73, 0x62, 0x74, 0xFF],
        Inr [0x01, 0x00],
        with_len (Tx_serialize E True (tx p)),
        serialize_hd_keypaths [0x4F, 0x01] (psbt_hd_keypaths p),
        (case version p of
           None \<Rightarrow> Inr []
         | Some v \<Rightarrow> if v = 0 then Inr []
                     else concat_res [Inr [0x01, 0xFB, 0x04], int_to_bytes 4 v]),
        serialize_proprietary (psbt_proprietary p),
        serialize_unknown (psbt_unknown p),
        Inr [0x00],
        concat_res (map (\<lambda>input_map. concat_res [PsbtInput_serialize E input_map, Inr [0x00]])
                        (inputs p)),
        concat_res (map (\<lambda>output_map. concat_res [PsbtOutput_serialize E output_map, Inr [0x00]])
                        (outputs p))]"

definition Psbt_serialize :: "collab \<Rightarrow> psbt \<Rightarrow> error + string" where
  "Psbt_serialize E p =
     (case Psbt_serialize_bytes E p of Inl e \<Rightarrow> Inl e | Inr out \<Rightarrow> Inr (b64encode E out))"

text \<open>\<^verbatim>\<open>psbt_from_tx\<close>: a copy of the transaction without unlocking data, and one record with
  the defaults per input and output.\<close>

definition psbt_from_tx :: "tx \<Rightarrow> psbt" where
  "psbt_from_tx t =
     \<lparr>tx = t\<lparr>vin := map (\<lambda>i. i\<lparr>scriptSig := [], txinwitness := []\<rparr>) (vin t)\<rparr>,
      inputs = map (\<lambda>_. PsbtInput_default) (vin t),
      outputs = map (\<lambda>_. PsbtOutput_default) (vout t),
      version = Some 0, psbt_hd_keypaths = [], psbt_proprietary = [], psbt_unknown = []\<rparr>"

text \<open>
  The equality of the dataclasses (\<^verbatim>\<open>==\<close>): field by field, dictionaries compared without
  regard to the order of their entries, the dictionaries inside \<^verbatim>\<open>proprietary\<close> too.
\<close>

definition PsbtInput_eq :: "psbt_input \<Rightarrow> psbt_input \<Rightarrow> bool" where
  "PsbtInput_eq a b =
     (non_witness_utxo a = non_witness_utxo b \<and> witness_utxo a = witness_utxo b
      \<and> dict_eq (partial_sigs a) (partial_sigs b) \<and> sighash a = sighash b
      \<and> redeem_script a = redeem_script b \<and> witness_script a = witness_script b
      \<and> hd_keypaths a = hd_keypaths b \<and> final_script_sig a = final_script_sig b
      \<and> final_script_witness a = final_script_witness b
      \<and> por_commitment a = por_commitment b
      \<and> dict_eq_by dict_eq (proprietary a) (proprietary b)
      \<and> dict_eq (unknown a) (unknown b))"

definition PsbtOutput_eq :: "psbt_output \<Rightarrow> psbt_output \<Rightarrow> bool" where
  "PsbtOutput_eq a b =
     (out_redeem_script a = out_redeem_script b \<and> out_witness_script a = out_witness_script b
      \<and> out_hd_keypaths a = out_hd_keypaths b
      \<and> dict_eq_by dict_eq (out_proprietary a) (out_proprietary b)
      \<and> dict_eq (out_unknown a) (out_unknown b))"

definition Psbt_eq :: "psbt \<Rightarrow> psbt \<Rightarrow> bool" where
  "Psbt_eq a b =
     (tx a = tx b \<and> list_all2 PsbtInput_eq (inputs a) (inputs b)
      \<and> list_all2 PsbtOutput_eq (outputs a) (outputs b) \<and> version a = version b
      \<and> psbt_hd_keypaths a = psbt_hd_keypaths b
      \<and> dict_eq_by dict_eq (psbt_proprietary a) (psbt_proprietary b)
      \<and> dict_eq (psbt_unknown a) (psbt_unknown b))"


section \<open>The combiner\<close>

text \<open>
  \<^verbatim>\<open>_combine\<close> walks the attributes of each later record and merges them into the first
  one, \<^verbatim>\<open>out = maps[0]\<close>, by the type of the attribute. The three branches are
  \<open>combine_dict\<close> (\<^verbatim>\<open>update\<close>, or the other dictionary when \<open>out\<close>'s is empty),
  \<open>combine_list\<close> (append what is not there yet, or the other list when \<open>out\<close>'s is
  empty) and \<open>combine_scalar\<close> (an attribute that is neither: when both are true they
  must be equal, the assertion's message is the attribute's name). The source mutates
  \<open>out\<close> in place; the model returns the merged record. It reads every later record as
  the caller passed it, which is what the source does when the records of the list are
  different objects, and also when a record is merged with itself, since that merge
  changes nothing.
\<close>

definition combine_dict :: "('k, 'v) dict \<Rightarrow> ('k, 'v) dict \<Rightarrow> ('k, 'v) dict" where
  "combine_dict out_v new_v = (if out_v \<noteq> [] then dict_update out_v new_v else new_v)"

definition combine_list :: "'a list \<Rightarrow> 'a list \<Rightarrow> 'a list" where
  "combine_list out_v new_v =
     (if out_v \<noteq> [] then fold (\<lambda>x acc. if x \<in> set acc then acc else acc @ [x]) new_v out_v
      else new_v)"

definition combine_scalar :: "string \<Rightarrow> ('a \<Rightarrow> bool) \<Rightarrow> 'a \<Rightarrow> 'a \<Rightarrow> error + 'a" where
  "combine_scalar key truthy out_v new_v =
     (if truthy new_v
      then (if truthy out_v
            then (if new_v = out_v then Inr out_v else Inl (AssertionError key))
            else Inr new_v)
      else Inr out_v)"

text \<open>The truth value of an optional object, an optional integer, an optional string.\<close>

definition truthy_obj :: "'a option \<Rightarrow> bool" where
  "truthy_obj v = (v \<noteq> None)"

definition truthy_int :: "int option \<Rightarrow> bool" where
  "truthy_int v = (v \<noteq> None \<and> v \<noteq> Some 0)"

definition truthy_str :: "string option \<Rightarrow> bool" where
  "truthy_str v = (v \<noteq> None \<and> v \<noteq> Some [])"

text \<open>The inner loop of \<^verbatim>\<open>_combine\<close> over the attributes of one later record \<open>psbt_map\<close>, in
  the order of the fields of the dataclass.\<close>

definition combine_input :: "psbt_input \<Rightarrow> psbt_input \<Rightarrow> error + psbt_input" where
  "combine_input psbt_map out =
     (case combine_scalar ''non_witness_utxo'' truthy_obj
             (non_witness_utxo out) (non_witness_utxo psbt_map) of
        Inl e \<Rightarrow> Inl e
      | Inr nwu \<Rightarrow>
     (case combine_scalar ''witness_utxo'' truthy_obj (witness_utxo out) (witness_utxo psbt_map) of
        Inl e \<Rightarrow> Inl e
      | Inr wu \<Rightarrow>
     (case combine_scalar ''sighash'' truthy_int (sighash out) (sighash psbt_map) of
        Inl e \<Rightarrow> Inl e
      | Inr sh \<Rightarrow>
     (case combine_scalar ''por_commitment'' truthy_str
             (por_commitment out) (por_commitment psbt_map) of
        Inl e \<Rightarrow> Inl e
      | Inr por \<Rightarrow>
          Inr \<lparr>non_witness_utxo = nwu, witness_utxo = wu,
               partial_sigs = combine_dict (partial_sigs out) (partial_sigs psbt_map),
               sighash = sh,
               redeem_script = combine_list (redeem_script out) (redeem_script psbt_map),
               witness_script = combine_list (witness_script out) (witness_script psbt_map),
               hd_keypaths = combine_list (hd_keypaths out) (hd_keypaths psbt_map),
               final_script_sig = combine_list (final_script_sig out) (final_script_sig psbt_map),
               final_script_witness =
                 combine_list (final_script_witness out) (final_script_witness psbt_map),
               por_commitment = por,
               proprietary = combine_dict (proprietary out) (proprietary psbt_map),
               unknown = combine_dict (unknown out) (unknown psbt_map)\<rparr>))))"

definition combine_output :: "psbt_output \<Rightarrow> psbt_output \<Rightarrow> error + psbt_output" where
  "combine_output psbt_map out =
     Inr \<lparr>out_redeem_script = combine_list (out_redeem_script out) (out_redeem_script psbt_map),
          out_witness_script = combine_list (out_witness_script out) (out_witness_script psbt_map),
          out_hd_keypaths = combine_list (out_hd_keypaths out) (out_hd_keypaths psbt_map),
          out_proprietary = combine_dict (out_proprietary out) (out_proprietary psbt_map),
          out_unknown = combine_dict (out_unknown out) (out_unknown psbt_map)\<rparr>"

text \<open>\<^verbatim>\<open>_combine\<close> on a list of input records and on a list of output records.\<close>

definition combine_input_maps :: "psbt_input list \<Rightarrow> error + psbt_input" where
  "combine_input_maps maps =
     (case maps of [] \<Rightarrow> Inl IndexError | out # rest \<Rightarrow> fold_res combine_input rest out)"

definition combine_output_maps :: "psbt_output list \<Rightarrow> error + psbt_output" where
  "combine_output_maps maps =
     (case maps of [] \<Rightarrow> Inl IndexError | out # rest \<Rightarrow> fold_res combine_output rest out)"

text \<open>The assertion of the first loop of \<^verbatim>\<open>combine_psbts\<close> on one later container.\<close>

definition assert_same_txid :: "collab \<Rightarrow> string \<Rightarrow> psbt \<Rightarrow> error + unit" where
  "assert_same_txid E txid p =
     (case Tx_txid E (tx p) of
        Inl e \<Rightarrow> Inl e
      | Inr t \<Rightarrow> if t = txid then Inr () else Inl (AssertionError ''psbt.tx.txid == txid''))"

text \<open>
  \<^verbatim>\<open>combine_psbts\<close>. After the first loop the variable \<^verbatim>\<open>psbt\<close> is the last container of
  the list, and it is unbound when the list has one element, so the ranges
  \<^verbatim>\<open>range(len(psbt.inputs))\<close> and \<^verbatim>\<open>range(len(psbt.outputs))\<close> are those of the last
  container. \<^verbatim>\<open>psbt.inputs = inputs\<close> assigns to that last container; the first one,
  which is returned, sees the merged input records because \<^verbatim>\<open>_combine\<close> has mutated its
  own records in place, and keeps the records past the range. Its \<^verbatim>\<open>outputs\<close> are
  assigned. The last loop merges the \<^verbatim>\<open>unknown\<close> dictionaries of all containers, the
  first included, into the first.
\<close>

definition combine_psbts :: "collab \<Rightarrow> psbt list \<Rightarrow> error + psbt" where
  "combine_psbts E psbts =
     (case psbts of
        [] \<Rightarrow> Inl IndexError
      | final_psbt # rest \<Rightarrow>
          (case Tx_txid E (tx final_psbt) of
             Inl e \<Rightarrow> Inl e
           | Inr txid \<Rightarrow>
               (case fold_res (\<lambda>p _. assert_same_txid E txid p) rest () of
                  Inl e \<Rightarrow> Inl e
                | Inr _ \<Rightarrow>
                    if rest = [] then Inl (UnboundLocalError ''psbt'')
                    else
                      (case map_res (\<lambda>x.
                               case map_res (\<lambda>p. py_index (inputs p) (int x)) psbts of
                                 Inl e \<Rightarrow> Inl e
                               | Inr maps \<Rightarrow> combine_input_maps maps)
                             [0 ..< length (inputs (last rest))] of
                         Inl e \<Rightarrow> Inl e
                       | Inr ins \<Rightarrow>
                           (case map_res (\<lambda>x.
                                    case map_res (\<lambda>p. py_index (outputs p) (int x)) psbts of
                                      Inl e \<Rightarrow> Inl e
                                    | Inr maps \<Rightarrow> combine_output_maps maps)
                                  [0 ..< length (outputs (last rest))] of
                              Inl e \<Rightarrow> Inl e
                            | Inr outs \<Rightarrow>
                                Inr (final_psbt
                                      \<lparr>inputs := ins @ drop (length ins) (inputs final_psbt),
                                       outputs := outs,
                                       psbt_unknown :=
                                         fold (\<lambda>p u. combine_dict u (psbt_unknown p)) psbts
                                              (psbt_unknown final_psbt)\<rparr>))))))"

text \<open>
  What the theorems about the combiner ask of the containers. A Python dictionary has
  each key once, so the association lists of a record have distinct keys. Two records
  agree on a scalar attribute unless both hold a true value and the values differ; that
  is when the assertion of \<^verbatim>\<open>_combine\<close> passes.
\<close>

definition PsbtInput_keys_distinct :: "psbt_input \<Rightarrow> bool" where
  "PsbtInput_keys_distinct r =
     (distinct (dict_keys (partial_sigs r)) \<and> distinct (dict_keys (proprietary r))
      \<and> distinct (dict_keys (unknown r)))"

definition PsbtOutput_keys_distinct :: "psbt_output \<Rightarrow> bool" where
  "PsbtOutput_keys_distinct r =
     (distinct (dict_keys (out_proprietary r)) \<and> distinct (dict_keys (out_unknown r)))"

definition Psbt_keys_distinct :: "psbt \<Rightarrow> bool" where
  "Psbt_keys_distinct p =
     (list_all PsbtInput_keys_distinct (inputs p) \<and> list_all PsbtOutput_keys_distinct (outputs p)
      \<and> distinct (dict_keys (psbt_unknown p)))"

definition scalar_agrees :: "('a \<Rightarrow> bool) \<Rightarrow> 'a \<Rightarrow> 'a \<Rightarrow> bool" where
  "scalar_agrees truthy out_v new_v = (\<not> (truthy new_v \<and> truthy out_v \<and> new_v \<noteq> out_v))"

definition PsbtInput_scalars_agree :: "psbt_input \<Rightarrow> psbt_input \<Rightarrow> bool" where
  "PsbtInput_scalars_agree out psbt_map =
     (scalar_agrees truthy_obj (non_witness_utxo out) (non_witness_utxo psbt_map)
      \<and> scalar_agrees truthy_obj (witness_utxo out) (witness_utxo psbt_map)
      \<and> scalar_agrees truthy_int (sighash out) (sighash psbt_map)
      \<and> scalar_agrees truthy_str (por_commitment out) (por_commitment psbt_map))"

section \<open>The finalizer and the extractor\<close>

text \<open>
  The body of the loop of \<^verbatim>\<open>finalize_psbt\<close> on one input record, and the function. It
  works on a deep copy, so the caller's container is not changed and the result is a new
  value.
\<close>

definition finalize_input :: "collab \<Rightarrow> psbt_input \<Rightarrow> error + psbt_input" where
  "finalize_input E psbt_in =
     (if partial_sigs psbt_in = [] then Inl (AssertionError ''psbt_in.partial_sigs'')
      else
        (case (if witness_script psbt_in \<noteq> []
               then (case script_encode E (redeem_script psbt_in) of
                       Inl e \<Rightarrow> Inl e
                     | Inr rs \<Rightarrow>
                         (case script_encode E (witness_script psbt_in) of
                            Inl e \<Rightarrow> Inl e
                          | Inr ws \<Rightarrow>
                              Inr (psbt_in
                                \<lparr>final_script_sig := [TStr (upper (hex rs))],
                                 final_script_witness :=
                                   (if length (partial_sigs psbt_in) > 1 then [''''] else [])
                                   @ dict_values (partial_sigs psbt_in) @ [hex ws]\<rparr>)))
               else (case script_encode E (redeem_script psbt_in) of
                       Inl e \<Rightarrow> Inl e
                     | Inr rs \<Rightarrow>
                         Inr (psbt_in
                           \<lparr>final_script_sig :=
                              (if length (partial_sigs psbt_in) > 1 then [TInt 0] else [])
                              @ map (\<lambda>a. TStr (upper a)) (dict_values (partial_sigs psbt_in))
                              @ [TStr (upper (hex rs))]\<rparr>))) of
           Inl e \<Rightarrow> Inl e
         | Inr r \<Rightarrow>
             Inr (r\<lparr>partial_sigs := [], sighash := Some 0, redeem_script := [],
                    witness_script := [], hd_keypaths := [], por_commitment := None\<rparr>)))"

definition finalize_psbt :: "collab \<Rightarrow> psbt \<Rightarrow> error + psbt" where
  "finalize_psbt E p =
     (case map_res (finalize_input E) (inputs p) of
        Inl e \<Rightarrow> Inl e
      | Inr ins \<Rightarrow> Inr (p\<lparr>inputs := ins\<rparr>))"

text \<open>
  \<^verbatim>\<open>extract_tx\<close>. \<^verbatim>\<open>tx = psbt.tx\<close> binds the transaction object of the container itself, the
  loop assigns to the attributes of its inputs, and that object is returned. The model
  returns the transaction together with the state of the argument after the call, whose
  \<open>tx\<close> is that same transaction. \<open>extract_input\<close> is one turn of the loop.
\<close>

definition extract_input :: "psbt_input list \<Rightarrow> nat \<times> txin \<Rightarrow> error + txin" where
  "extract_input ins iv =
     (case iv of (i, v) \<Rightarrow>
       (case py_index ins (int i) of
          Inl e \<Rightarrow> Inl e
        | Inr r \<Rightarrow>
            Inr (v\<lparr>scriptSig := final_script_sig r,
                   txinwitness := (if final_script_witness r \<noteq> [] then final_script_witness r
                                   else txinwitness v)\<rparr>)))"

definition extract_tx :: "psbt \<Rightarrow> error + (tx \<times> psbt)" where
  "extract_tx p =
     (case map_res (extract_input (inputs p)) (zip [0 ..< length (vin (tx p))] (vin (tx p))) of
        Inl e \<Rightarrow> Inl e
      | Inr vin' \<Rightarrow> Inr ((tx p)\<lparr>vin := vin'\<rparr>, p\<lparr>tx := (tx p)\<lparr>vin := vin'\<rparr>\<rparr>))"

section \<open>psbt\_in.py\<close>

text \<open>
  \<^verbatim>\<open>_deserialize_partial_sigs\<close> of psbt\_in.py, the decoder of the partial-signature tag in
  \<^verbatim>\<open>PsbtIn.deserialize\<close>. The message of the source ends with the length it found.
\<close>

definition deserialize_partial_sigs :: "bytes \<Rightarrow> bytes \<Rightarrow> error + (bytes, bytes) dict" where
  "deserialize_partial_sigs k v =
     (if int (length k) - 1 \<notin> {33, 65}
      then Inl (BTClibValueError ''invalid partial signature pubkey length'')
      else Inr [(drop 1 k, v)])"


section \<open>A concrete set of collaborators\<close>

text \<open>
  An instance of the collaborators on which the model runs: scripts whose tokens are
  one-byte opcodes, the Bitcoin layout of inputs, outputs and witness stacks, identity
  functions in place of the hashes, what follows the first opcode of a locking script as
  its payload, and hex text in place of base64. The theorems below hold for every set of collaborators; this one
  instantiates them on concrete containers.
\<close>

definition demo_token_byte :: "token \<Rightarrow> error + byte" where
  "demo_token_byte t =
     (case t of
        TInt n \<Rightarrow> if 0 \<le> n \<and> n < 256 then Inr (of_int n) else Inl (ValueError ''opcode'')
      | TStr s \<Rightarrow> Inl (ValueError ''opcode'')
      | TBytes b \<Rightarrow> Inl (ValueError ''opcode''))"

definition demo_script_encode :: "token list \<Rightarrow> error + bytes" where
  "demo_script_encode toks = map_res demo_token_byte toks"

definition demo_script_decode :: "bytes \<Rightarrow> error + token list" where
  "demo_script_decode bs = Inr (map (\<lambda>b. TInt (uint b)) bs)"

definition demo_script_serialize :: "token list \<Rightarrow> error + bytes" where
  "demo_script_serialize toks = with_len (demo_script_encode toks)"

text \<open>A script read off a stream: its length, then its bytes.\<close>

definition demo_read_script :: "bytes \<Rightarrow> error + (token list \<times> bytes)" where
  "demo_read_script s =
     (case varint_decode s of
        Inl e \<Rightarrow> Inl e
      | Inr (n, s') \<Rightarrow>
          if length s' < nat n then Inl (ValueError ''not enough data'')
          else Inr (map (\<lambda>b. TInt (uint b)) (take (nat n) s'), drop (nat n) s'))"

definition demo_txin_serialize :: "txin \<Rightarrow> error + bytes" where
  "demo_txin_serialize i =
     concat_res
       [(case fromhex (prevout_hash i) of
           Inl e \<Rightarrow> Inl e
         | Inr h \<Rightarrow> if length h = 32 then Inr (rev h) else Inl (ValueError ''prevout hash'')),
        int_to_bytes 4 (prevout_n i),
        demo_script_serialize (scriptSig i),
        int_to_bytes 4 (nSequence i)]"

definition demo_txin_deserialize :: "bytes \<Rightarrow> error + (txin \<times> bytes)" where
  "demo_txin_deserialize s =
     (if length s < 36 then Inl (ValueError ''not enough data'')
      else
        (case demo_read_script (drop 36 s) of
           Inl e \<Rightarrow> Inl e
         | Inr (sc, s') \<Rightarrow>
             if length s' < 4 then Inl (ValueError ''not enough data'')
             else Inr (\<lparr>prevout_hash = hex (rev (take 32 s)),
                        prevout_n = int_from_bytes (take 4 (drop 32 s)),
                        scriptSig = sc,
                        nSequence = int_from_bytes (take 4 s'),
                        txinwitness = []\<rparr>, drop 4 s')))"

definition demo_txout_serialize :: "txout \<Rightarrow> error + bytes" where
  "demo_txout_serialize out =
     concat_res [int_to_bytes 8 (nValue out), demo_script_serialize (scriptPubKey out)]"

definition demo_txout_deserialize :: "bytes \<Rightarrow> error + (txout \<times> bytes)" where
  "demo_txout_deserialize s =
     (if length s < 8 then Inl (ValueError ''not enough data'')
      else
        (case demo_read_script (drop 8 s) of
           Inl e \<Rightarrow> Inl e
         | Inr (sc, s') \<Rightarrow>
             Inr (\<lparr>nValue = int_from_bytes (take 8 s), scriptPubKey = sc\<rparr>, s')))"

definition demo_witness_serialize :: "string list \<Rightarrow> error + bytes" where
  "demo_witness_serialize ws =
     concat_res (varint_encode (int (length ws)) # map (\<lambda>w. with_len (fromhex w)) ws)"

definition demo_read_item :: "bytes \<Rightarrow> error + (string \<times> bytes)" where
  "demo_read_item s =
     (case varint_decode s of
        Inl e \<Rightarrow> Inl e
      | Inr (n, s') \<Rightarrow>
          if length s' < nat n then Inl (ValueError ''not enough data'')
          else Inr (hex (take (nat n) s'), drop (nat n) s'))"

definition demo_witness_deserialize :: "bytes \<Rightarrow> error + (string list \<times> bytes)" where
  "demo_witness_deserialize s =
     (case varint_decode s of
        Inl e \<Rightarrow> Inl e
      | Inr (n, s') \<Rightarrow> read_many demo_read_item (nat n) s')"

definition demo_collab :: collab where
  "demo_collab =
     \<lparr>script_encode = demo_script_encode,
      script_decode = demo_script_decode,
      script_serialize = demo_script_serialize,
      txin_serialize = demo_txin_serialize,
      txin_deserialize = demo_txin_deserialize,
      txin_assert_valid = (\<lambda>i. Inr ()),
      txout_serialize = demo_txout_serialize,
      txout_deserialize = demo_txout_deserialize,
      txout_assert_valid = (\<lambda>out. Inr ()),
      witness_serialize = demo_witness_serialize,
      witness_deserialize = demo_witness_deserialize,
      hash160 = (\<lambda>bs. bs),
      sha256 = (\<lambda>bs. bs),
      hash256 = (\<lambda>bs. bs),
      payload_from_scriptPubKey = (\<lambda>s. demo_script_encode (drop 1 s)),
      b64encode = hex,
      b64decode = fromhex\<rparr>"

text \<open>
  Concrete containers. The skeleton spends one output and pays one. \<open>demo_signed\<close> holds
  two partial signatures for a witness script wrapped in a redeem script, on a witness
  UTXO whose locking script commits to the redeem script (with the identity hashes above,
  a script commits to what follows its first opcode).
\<close>

definition demo_tx :: tx where
  "demo_tx =
     \<lparr>nVersion = 2, nLockTime = 0,
      vin = [\<lparr>prevout_hash = hex (replicate 32 0x11), prevout_n = 0, scriptSig = [],
              nSequence = 0, txinwitness = []\<rparr>],
      vout = [\<lparr>nValue = 1000, scriptPubKey = [TInt 0x51]\<rparr>]\<rparr>"

definition demo_unsigned :: psbt where
  "demo_unsigned = psbt_from_tx demo_tx"

definition demo_pubkey1 :: string where
  "demo_pubkey1 = hex (0x02 # replicate 32 0x01)"

definition demo_pubkey2 :: string where
  "demo_pubkey2 = hex (0x03 # replicate 32 0x02)"

definition demo_sig1 :: string where
  "demo_sig1 = hex [0x30, 0x44]"

definition demo_sig2 :: string where
  "demo_sig2 = hex [0x30, 0x45]"

definition demo_input :: psbt_input where
  "demo_input =
     PsbtInput_default
       \<lparr>witness_utxo := Some \<lparr>nValue = 1000,
                               scriptPubKey = [TInt 0xA9, TInt 0x00, TInt 0x52, TInt 0xAE]\<rparr>,
        redeem_script := [TInt 0x00, TInt 0x52, TInt 0xAE],
        witness_script := [TInt 0x52, TInt 0xAE]\<rparr>"

definition demo_signed :: psbt where
  "demo_signed =
     demo_unsigned
       \<lparr>inputs := [demo_input\<lparr>partial_sigs := [(demo_pubkey1, demo_sig1),
                                               (demo_pubkey2, demo_sig2)]\<rparr>]\<rparr>"

text \<open>The containers of the two co-signers, each with its own partial signature.\<close>

definition demo_signed1 :: psbt where
  "demo_signed1 =
     demo_unsigned\<lparr>inputs := [demo_input\<lparr>partial_sigs := [(demo_pubkey1, demo_sig1)]\<rparr>]\<rparr>"

definition demo_signed2 :: psbt where
  "demo_signed2 =
     demo_unsigned\<lparr>inputs := [demo_input\<lparr>partial_sigs := [(demo_pubkey2, demo_sig2)]\<rparr>]\<rparr>"

text \<open>A record with a redeem script and neither UTXO.\<close>

definition demo_no_utxo :: psbt where
  "demo_no_utxo =
     demo_unsigned
       \<lparr>inputs := [PsbtInput_default\<lparr>redeem_script := [TInt 0x00, TInt 0x52, TInt 0xAE]\<rparr>]\<rparr>"


section \<open>Containers in canonical form\<close>

text \<open>
  The serializer writes a field only when it is true, writes every hex string as the
  bytes it stands for, and frames a partial-signature key and a derivation key with a
  fixed length; the decoder returns lower-case hex, an integer for \<^verbatim>\<open>sighash\<close> and
  \<^verbatim>\<open>version\<close>, and \<^verbatim>\<open>None\<close> for an absent commitment. A container is in canonical form when
  it is one the decoder can return: the predicates below say so field by field. What
  they ask of the collaborators is asked of the objects of the container only: that the
  transaction, output, script and witness codecs read back what they wrote, and that
  \<^verbatim>\<open>script.serialize\<close> is the length-prefixed \<^verbatim>\<open>script.encode\<close>.
\<close>

definition canonical_hex :: "string \<Rightarrow> bool" where
  "canonical_hex s = (case fromhex s of Inl _ \<Rightarrow> False | Inr bs \<Rightarrow> hex bs = s)"

definition unhex :: "string \<Rightarrow> bytes" where
  "unhex s = (case fromhex s of Inl _ \<Rightarrow> [] | Inr bs \<Rightarrow> bs)"

definition outr :: "error + 'a list \<Rightarrow> 'a list" where
  "outr m = (case m of Inl _ \<Rightarrow> [] | Inr x \<Rightarrow> x)"

definition hex_dict_canonical :: "(string, string) dict \<Rightarrow> bool" where
  "hex_dict_canonical d =
     (list_all (\<lambda>(k, v). canonical_hex k \<and> canonical_hex v) d \<and> distinct (dict_keys d))"

definition keypath_canonical :: "nat \<Rightarrow> hd_keypath \<Rightarrow> bool" where
  "keypath_canonical n k =
     (canonical_hex (xpub k) \<and> length (unhex (xpub k)) = n
      \<and> canonical_hex (fingerprint k) \<and> canonical_hex (derivation_path k)
      \<and> (length (unhex (fingerprint k)) = 4 \<and> length (unhex (derivation_path k)) mod 4 = 0
          \<or> fingerprint k = [] \<and> derivation_path k = []))"

definition keypaths_canonical :: "nat \<Rightarrow> hd_keypath list \<Rightarrow> bool" where
  "keypaths_canonical n ks = (list_all (keypath_canonical n) ks \<and> distinct (map xpub ks))"

definition proprietary_canonical :: "(int, (string, string) dict) dict \<Rightarrow> bool" where
  "proprietary_canonical prop =
     (distinct (dict_keys prop)
      \<and> list_all (\<lambda>(owner, d). 0 \<le> owner \<and> owner \<le> 0xFFFFFFFFFFFFFFFF \<and> d \<noteq> []
                                 \<and> hex_dict_canonical d) prop)"

text \<open>The keys of \<^verbatim>\<open>unknown\<close> start with none of the tags the decoder knows.\<close>

definition unknown_canonical :: "byte list \<Rightarrow> (string, string) dict \<Rightarrow> bool" where
  "unknown_canonical tags u =
     (hex_dict_canonical u
      \<and> list_all (\<lambda>(k, v). case unhex k of [] \<Rightarrow> False | t # _ \<Rightarrow> t \<notin> set tags) u)"

definition script_canonical :: "collab \<Rightarrow> token list \<Rightarrow> bool" where
  "script_canonical E s =
     (s = [] \<or>
      (case script_encode E s of
         Inl _ \<Rightarrow> False
       | Inr b \<Rightarrow> script_serialize E s = with_len (Inr b) \<and> script_decode E b = Inr s))"

definition tx_canonical :: "collab \<Rightarrow> tx \<Rightarrow> bool" where
  "tx_canonical E u =
     (case Tx_serialize E True u of Inl _ \<Rightarrow> False | Inr b \<Rightarrow> Tx_deserialize E b = Inr u)"

definition txout_canonical :: "collab \<Rightarrow> txout \<Rightarrow> bool" where
  "txout_canonical E out =
     (case txout_serialize E out of
        Inl _ \<Rightarrow> False
      | Inr b \<Rightarrow> (case txout_deserialize E b of Inl _ \<Rightarrow> False | Inr (out', _) \<Rightarrow> out' = out))"

definition witness_canonical :: "collab \<Rightarrow> string list \<Rightarrow> bool" where
  "witness_canonical E w =
     (w = [] \<or>
      (case witness_serialize E w of
         Inl _ \<Rightarrow> False
       | Inr b \<Rightarrow> (case witness_deserialize E b of Inl _ \<Rightarrow> False | Inr (w', _) \<Rightarrow> w' = w)))"

definition input_tags :: "byte list" where
  "input_tags = [0x00, 0x01, 0x02, 0x03, 0x04, 0x05, 0x06, 0x07, 0x08, 0x09, 0xFC]"

definition output_tags :: "byte list" where
  "output_tags = [0x00, 0x01, 0x02, 0xFC]"

definition global_tags :: "byte list" where
  "global_tags = [0x00, 0x01, 0xFB, 0xFC]"

definition PsbtInput_canonical :: "collab \<Rightarrow> psbt_input \<Rightarrow> bool" where
  "PsbtInput_canonical E r =
     ((case non_witness_utxo r of None \<Rightarrow> True | Some u \<Rightarrow> tx_canonical E u)
      \<and> (case witness_utxo r of None \<Rightarrow> True | Some out \<Rightarrow> txout_canonical E out)
      \<and> hex_dict_canonical (partial_sigs r)
      \<and> list_all (\<lambda>(k, v). length (unhex k) = 33) (partial_sigs r)
      \<and> sighash r \<noteq> None
      \<and> script_canonical E (redeem_script r)
      \<and> script_canonical E (witness_script r)
      \<and> keypaths_canonical 33 (hd_keypaths r)
      \<and> script_canonical E (final_script_sig r)
      \<and> witness_canonical E (final_script_witness r)
      \<and> (case por_commitment r of None \<Rightarrow> True | Some c \<Rightarrow> c \<noteq> [] \<and> canonical_hex c)
      \<and> proprietary_canonical (proprietary r)
      \<and> unknown_canonical input_tags (unknown r))"

definition PsbtOutput_canonical :: "collab \<Rightarrow> psbt_output \<Rightarrow> bool" where
  "PsbtOutput_canonical E r =
     (script_canonical E (out_redeem_script r)
      \<and> script_canonical E (out_witness_script r)
      \<and> keypaths_canonical 33 (out_hd_keypaths r)
      \<and> proprietary_canonical (out_proprietary r)
      \<and> unknown_canonical output_tags (out_unknown r))"

definition Psbt_canonical :: "collab \<Rightarrow> psbt \<Rightarrow> bool" where
  "Psbt_canonical E p =
     (tx_canonical E (tx p)
      \<and> length (inputs p) = length (vin (tx p))
      \<and> length (outputs p) = length (vout (tx p))
      \<and> list_all (PsbtInput_canonical E) (inputs p)
      \<and> list_all (PsbtOutput_canonical E) (outputs p)
      \<and> version p \<noteq> None
      \<and> keypaths_canonical 78 (psbt_hd_keypaths p)
      \<and> proprietary_canonical (psbt_proprietary p)
      \<and> unknown_canonical global_tags (psbt_unknown p))"

subsection \<open>The map a record is written as\<close>

text \<open>
  The entries (key bytes, value bytes) the serializers write for a record in canonical
  form, in the order they write them; the proofs show that the serializers write exactly
  these entries and that the decoders read the record back from them.
\<close>

definition sigs_items :: "(string, string) dict \<Rightarrow> (bytes, bytes) dict" where
  "sigs_items d = map (\<lambda>(k, v). (0x02 # unhex k, unhex v)) d"

definition keypath_items :: "byte \<Rightarrow> hd_keypath list \<Rightarrow> (bytes, bytes) dict" where
  "keypath_items tag ks =
     map (\<lambda>k. (tag # unhex (xpub k), unhex (fingerprint k) @ unhex (derivation_path k))) ks"

definition owner_items :: "int \<Rightarrow> (string, string) dict \<Rightarrow> (bytes, bytes) dict" where
  "owner_items owner d =
     map (\<lambda>(k, v). (0xFC # outr (varint_encode owner) @ unhex k, unhex v)) d"

definition proprietary_items :: "(int, (string, string) dict) dict \<Rightarrow> (bytes, bytes) dict" where
  "proprietary_items prop = concat (map (\<lambda>(owner, d). owner_items owner d) prop)"

definition unknown_items :: "(string, string) dict \<Rightarrow> (bytes, bytes) dict" where
  "unknown_items u = map (\<lambda>(k, v). (unhex k, unhex v)) u"

definition script_items :: "collab \<Rightarrow> byte \<Rightarrow> token list \<Rightarrow> (bytes, bytes) dict" where
  "script_items E tag s = (if s = [] then [] else [([tag], outr (script_encode E s))])"

definition int_items :: "byte \<Rightarrow> int option \<Rightarrow> (bytes, bytes) dict" where
  "int_items tag v =
     (case v of None \<Rightarrow> []
      | Some h \<Rightarrow> if h = 0 then [] else [([tag], outr (int_to_bytes 4 h))])"

definition PsbtInput_items :: "collab \<Rightarrow> psbt_input \<Rightarrow> (bytes, bytes) dict" where
  "PsbtInput_items E r =
     (case non_witness_utxo r of
        None \<Rightarrow> [] | Some u \<Rightarrow> [([0x00], outr (Tx_serialize E True u))])
     @ (case witness_utxo r of
          None \<Rightarrow> [] | Some out \<Rightarrow> [([0x01], outr (txout_serialize E out))])
     @ sigs_items (partial_sigs r)
     @ int_items 0x03 (sighash r)
     @ script_items E 0x04 (redeem_script r)
     @ script_items E 0x05 (witness_script r)
     @ keypath_items 0x06 (hd_keypaths r)
     @ script_items E 0x07 (final_script_sig r)
     @ (if final_script_witness r = [] then []
        else [([0x08], outr (witness_serialize E (final_script_witness r)))])
     @ (case por_commitment r of
          None \<Rightarrow> [] | Some c \<Rightarrow> if c = [] then [] else [([0x09], unhex c)])
     @ proprietary_items (proprietary r)
     @ unknown_items (unknown r)"

definition PsbtOutput_items :: "collab \<Rightarrow> psbt_output \<Rightarrow> (bytes, bytes) dict" where
  "PsbtOutput_items E r =
     script_items E 0x00 (out_redeem_script r)
     @ script_items E 0x01 (out_witness_script r)
     @ keypath_items 0x02 (out_hd_keypaths r)
     @ proprietary_items (out_proprietary r)
     @ unknown_items (out_unknown r)"

definition global_items :: "collab \<Rightarrow> psbt \<Rightarrow> (bytes, bytes) dict" where
  "global_items E p =
     [([0x00], outr (Tx_serialize E True (tx p)))]
     @ keypath_items 0x01 (psbt_hd_keypaths p)
     @ int_items 0xFB (version p)
     @ proprietary_items (psbt_proprietary p)
     @ unknown_items (psbt_unknown p)"


section \<open>Properties of the varint codec and of the map codec\<close>

lemma length_le_bytes [simp]: "length (le_bytes k n) = k"
  by (induction k arbitrary: n) simp_all

lemma le_nat_le_bytes: "le_nat (le_bytes k n) = n mod 256 ^ k"
proof (induction k arbitrary: n)
  case 0
  show ?case by simp
next
  case (Suc k)
  have "unat (of_nat (n mod 256) :: byte) = n mod 256"
    by (simp add: unat_of_nat)
  then show ?case
    using Suc by (simp add: mod_mult2_eq)
qed

lemma read_le_le_bytes:
  "n < 256 ^ k \<Longrightarrow> read_le k (le_bytes k n @ rest) = Inr (int n, rest)"
  by (simp add: read_le_def int_from_bytes_def le_nat_le_bytes)

lemma uint_byte_of_int: "0 \<le> i \<Longrightarrow> i < 256 \<Longrightarrow> uint (of_int i :: byte) = i"
  by (simp add: uint_word_of_int)

lemma varint_encode_nonempty: "varint_encode i = Inr enc \<Longrightarrow> enc \<noteq> []"
  by (auto simp: varint_encode_def split: if_splits)

lemma varint_encode_range:
  "varint_encode i = Inr enc \<Longrightarrow> 0 \<le> i \<and> i \<le> 0xFFFFFFFFFFFFFFFF"
  by (auto simp: varint_encode_def split: if_splits)

text \<open>Decoding reads back what encoding wrote and leaves the rest of the stream.\<close>

lemma varint_decode_encode:
  assumes "varint_encode i = Inr enc"
  shows "varint_decode (enc @ rest) = Inr (i, rest)"
proof -
  from assms have i0: "0 \<le> i" and imax: "i \<le> 0xFFFFFFFFFFFFFFFF"
    using varint_encode_range by blast+
  consider (a) "i < 0xFD" | (b) "0xFD \<le> i" "i \<le> 0xFFFF" | (c) "0xFFFF < i" "i \<le> 0xFFFFFFFF"
    | (d) "0xFFFFFFFF < i"
    by linarith
  then show ?thesis
  proof cases
    case a
    with i0 assms have enc: "enc = [of_int i]" by (simp add: varint_encode_def)
    have u: "uint (of_int i :: byte) = i" using a i0 by (simp add: uint_byte_of_int)
    have "(of_int i :: byte) \<noteq> 0xFD" "(of_int i :: byte) \<noteq> 0xFE" "(of_int i :: byte) \<noteq> 0xFF"
      using u a by auto
    then show ?thesis using u by (simp add: enc varint_decode_def)
  next
    case b
    with i0 assms have enc: "enc = 0xFD # le_bytes 2 (nat i)" by (simp add: varint_encode_def)
    have "nat i < 256 ^ 2" using b by simp
    from read_le_le_bytes[OF this] i0 show ?thesis by (simp add: enc varint_decode_def)
  next
    case c
    with i0 assms have enc: "enc = 0xFE # le_bytes 4 (nat i)" by (simp add: varint_encode_def)
    have "nat i < 256 ^ 4" using c by simp
    from read_le_le_bytes[OF this] i0 show ?thesis by (simp add: enc varint_decode_def)
  next
    case d
    with i0 imax assms have enc: "enc = 0xFF # le_bytes 8 (nat i)" by (simp add: varint_encode_def)
    have "nat i < 256 ^ 8" using imax by simp
    from read_le_le_bytes[OF this] i0 show ?thesis by (simp add: enc varint_decode_def)
  qed
qed

text \<open>The encoding of a positive length never starts with the terminator byte.\<close>

lemma varint_encode_hd_nonzero:
  assumes "varint_encode i = Inr enc" and "0 < i"
  shows "\<exists>b bs. enc = b # bs \<and> b \<noteq> 0"
proof (cases "i < 0xFD")
  case True
  with assms have enc: "enc = [of_int i]" by (simp add: varint_encode_def)
  have "uint (of_int i :: byte) = i" using True assms(2) by (simp add: uint_byte_of_int)
  with assms(2) have "(of_int i :: byte) \<noteq> 0" by auto
  with enc show ?thesis by simp
next
  case False
  with assms show ?thesis by (auto simp: varint_encode_def split: if_splits)
qed

lemma kv_entry_Inr:
  "kv_entry k v = Inr e \<Longrightarrow>
     \<exists>ek ev. varint_encode (int (length k)) = Inr ek \<and> varint_encode (int (length v)) = Inr ev
        \<and> e = ek @ k @ ev @ v"
  by (auto simp: kv_entry_def split: sum.splits)

text \<open>One turn of the loop on a well-framed entry with a non-empty key.\<close>

lemma deserialize_map_loop_entry:
  assumes e: "kv_entry k v = Inr e" and k: "k \<noteq> []"
  shows "deserialize_map_loop (e @ rest) pm =
           (if k \<in> set (dict_keys pm) then Inl (AssertionError ''Malformed psbt: duplicate keys'')
            else deserialize_map_loop rest (pm @ [(k, v)]))"
proof -
  from kv_entry_Inr[OF e] obtain ek ev where
    ek: "varint_encode (int (length k)) = Inr ek" and
    ev: "varint_encode (int (length v)) = Inr ev" and
    e_eq: "e = ek @ k @ ev @ v" by blast
  from k have "0 < int (length k)" by simp
  from varint_encode_hd_nonzero[OF ek this] obtain b bs where ekb: "ek = b # bs" and b: "b \<noteq> 0"
    by blast
  have d1: "varint_decode (e @ rest) = Inr (int (length k), k @ ev @ v @ rest)"
    using varint_decode_encode[OF ek, of "k @ ev @ v @ rest"] by (simp add: e_eq)
  have d2: "varint_decode (ev @ v @ rest) = Inr (int (length v), v @ rest)"
    using varint_decode_encode[OF ev, of "v @ rest"] by simp
  have dat: "e @ rest = b # (bs @ k @ ev @ v @ rest)" by (simp add: e_eq ekb)
  show ?thesis
    apply (subst deserialize_map_loop.simps)
    apply (simp only: d1 dat[symmetric] list.case sum.case prod.case)
    apply (simp add: dat b ek)
    apply (simp add: dat[symmetric] e_eq d2 ev Let_def)
    done
qed

lemma kv_entries_Cons:
  "kv_entries ((k, v) # kvs) = Inr buf \<Longrightarrow>
     \<exists>e es. kv_entry k v = Inr e \<and> kv_entries kvs = Inr es \<and> buf = e @ es"
  by (auto simp: kv_entries_def split: sum.splits)

text \<open>The loop on a sequence of well-framed entries: it stores them in order, or stops at
  the first key that is already in the map.\<close>

lemma deserialize_map_loop_entries:
  assumes "kv_entries kvs = Inr buf" and "[] \<notin> set (dict_keys kvs)"
  shows "deserialize_map_loop (buf @ rest) pm =
           (if distinct (dict_keys kvs) \<and> set (dict_keys kvs) \<inter> set (dict_keys pm) = {}
            then deserialize_map_loop rest (pm @ kvs)
            else Inl (AssertionError ''Malformed psbt: duplicate keys''))"
  using assms
proof (induction kvs arbitrary: buf pm)
  case Nil
  then show ?case by (simp add: kv_entries_def dict_keys_def)
next
  case (Cons kv kvs)
  obtain k v where kv: "kv = (k, v)" by (cases kv)
  from Cons.prems(1) kv obtain e es where
    e: "kv_entry k v = Inr e" and es: "kv_entries kvs = Inr es" and buf: "buf = e @ es"
    using kv_entries_Cons by blast
  from Cons.prems(2) kv have k: "k \<noteq> []" and ks: "[] \<notin> set (dict_keys kvs)"
    by (auto simp: dict_keys_def)
  have step: "deserialize_map_loop (buf @ rest) pm =
           (if k \<in> set (dict_keys pm) then Inl (AssertionError ''Malformed psbt: duplicate keys'')
            else deserialize_map_loop (es @ rest) (pm @ [(k, v)]))"
    using deserialize_map_loop_entry[OF e k, of "es @ rest" pm] by (simp add: buf)
  show ?case
    unfolding step Cons.IH[OF es ks]
    by (auto simp: kv dict_keys_def)
qed

lemma kv_entries_nonempty:
  assumes "kv_entries kvs = Inr buf" and "kvs \<noteq> []"
  shows "buf \<noteq> []"
proof -
  from assms(2) obtain k v rest where kvs: "kvs = (k, v) # rest" by (cases kvs) auto
  from kv_entries_Cons[OF assms(1)[unfolded kvs]] obtain e es where
    e: "kv_entry k v = Inr e" and buf: "buf = e @ es" by blast
  from kv_entry_Inr[OF e] varint_encode_nonempty have "e \<noteq> []" by fastforce
  with buf show ?thesis by simp
qed

text \<open>
  Claim C8. A buffer that starts with the entries of a key-value map in which a key
  byte-string occurs twice is refused by \<open>deserialize_map\<close> with the duplicate-key
  assertion, whatever follows the entries (the terminator and the later maps); no map is
  returned, so neither entry is kept.
\<close>

theorem deserialize_map_duplicate_key:
  assumes "kv_entries kvs = Inr buf"
    and "[] \<notin> set (dict_keys kvs)"
    and "\<not> distinct (dict_keys kvs)"
  shows "deserialize_map (buf @ rest) = Inl (AssertionError ''Malformed psbt: duplicate keys'')"
proof -
  from assms(3) have "kvs \<noteq> []" by (auto simp: dict_keys_def)
  with assms(1) have "buf \<noteq> []" by (rule kv_entries_nonempty)
  then show ?thesis
    using deserialize_map_loop_entries[OF assms(1,2), of rest "[]"] assms(3)
    by (simp add: deserialize_map_def)
qed

theorem deserialize_map_duplicate_key_witness:
  "kv_entries [([0x0A], [0x01]), ([0x0A], [0x02])] = Inr [1, 0x0A, 1, 0x01, 1, 0x0A, 1, 0x02]
   \<and> [] \<notin> set (dict_keys [([0x0A :: byte], [0x01 :: byte]), ([0x0A], [0x02])])
   \<and> \<not> distinct (dict_keys [([0x0A :: byte], [0x01 :: byte]), ([0x0A], [0x02])])
   \<and> deserialize_map ([1, 0x0A, 1, 0x01, 1, 0x0A, 1, 0x02] @ [0x00])
       = Inl (AssertionError ''Malformed psbt: duplicate keys'')"
proof -
  have a: "kv_entries [([0x0A], [0x01]), ([0x0A], [0x02])] = Inr [1, 0x0A, 1, 0x01, 1, 0x0A, 1, 0x02]"
    by (simp add: kv_entries_def kv_entry_def varint_encode_def)
  have b: "[] \<notin> set (dict_keys [([0x0A :: byte], [0x01 :: byte]), ([0x0A], [0x02])])"
    by (simp add: dict_keys_def)
  have c: "\<not> distinct (dict_keys [([0x0A :: byte], [0x01 :: byte]), ([0x0A], [0x02])])"
    by (simp add: dict_keys_def)
  from deserialize_map_duplicate_key[OF a b c, of "[0x00]"] a b c show ?thesis by blast
qed


section \<open>Hex strings\<close>

lemma lt16_cases:
  "n < 16 \<Longrightarrow> n \<in> {0, 1, 2, 3, 4, 5, 6, 7, 8, 9, 10, 11, 12, 13, 14, 15 :: nat}"
  by (simp only: insert_iff empty_iff) arith

lemma hexdigit_props:
  assumes "n < 16"
  shows "hexval (hexdigit n) = Some n" and "\<not> is_space (hexdigit n)"
  using lt16_cases[OF assms]
  by (auto simp: hexdigit_def hexval_def is_space_def)

lemma byte_split: "of_nat (16 * (unat b div 16) + unat b mod 16) = (b :: byte)"
  by simp

lemma fromhex_hex: "fromhex (hex bs) = Inr bs"
proof (induction bs)
  case Nil
  show ?case by simp
next
  case (Cons b bs)
  have hi: "unat b div 16 < 16"
    using unsigned_less[of b, where 'a = nat] by (simp add: less_mult_imp_div_less)
  have lo: "unat b mod 16 < 16" by simp
  show ?case
    using hexdigit_props[OF hi] hexdigit_props[OF lo] Cons
    by (simp add: byte_split del: of_nat_add of_nat_mult)
qed

lemma length_hex: "length (hex bs) = 2 * length bs"
  by (induction bs) simp_all

lemma hex_append: "hex (a @ b) = hex a @ hex b"
  by (induction a) simp_all

lemma hex_inj: "hex a = hex b \<Longrightarrow> a = b"
  by (metis fromhex_hex sum.inject(2))

lemma hex_with_len_hex: "hex_with_len (hex bs) = with_len (Inr bs)"
  by (simp add: hex_with_len_def with_len_def length_hex fromhex_hex split: sum.splits)


section \<open>Loops that may raise\<close>

lemma map_res_Inr_iff:
  "map_res f xs = Inr ys \<longleftrightarrow> list_all2 (\<lambda>x y. f x = Inr y) xs ys"
proof (induction xs arbitrary: ys)
  case Nil
  show ?case by auto
next
  case (Cons x xs)
  show ?case
  proof (cases ys)
    case Nil
    then show ?thesis by (auto split: sum.splits)
  next
    case (Cons y ys')
    then show ?thesis
      by (cases "f x"; cases "map_res f xs") (auto simp: Cons.IH[symmetric])
  qed
qed

lemma map_res_length: "map_res f xs = Inr ys \<Longrightarrow> length ys = length xs"
  by (simp add: map_res_Inr_iff list_all2_lengthD)

lemma map_res_nth:
  "map_res f xs = Inr ys \<Longrightarrow> i < length xs \<Longrightarrow> f (xs ! i) = Inr (ys ! i)"
  by (auto simp: map_res_Inr_iff dest: list_all2_nthD)

lemma map_res_total:
  "list_all (\<lambda>x. \<exists>y. f x = Inr y) xs \<Longrightarrow> \<exists>ys. map_res f xs = Inr ys"
  by (induction xs) auto

lemma map_res_fails:
  "list_ex (\<lambda>x. \<exists>e. f x = Inl e) xs \<Longrightarrow> \<exists>e. map_res f xs = Inl e"
  by (induction xs) (auto split: sum.splits)

lemma map_res_first_error:
  "f x = Inl e \<Longrightarrow> map_res f (x # xs) = Inl e"
  by simp

section \<open>The finalizer\<close>

lemma finalize_input_no_sigs:
  "partial_sigs r = [] \<Longrightarrow> finalize_input E r = Inl (AssertionError ''psbt_in.partial_sigs'')"
  by (simp add: finalize_input_def)

lemma finalize_input_cleared:
  assumes "finalize_input E r = Inr r'"
  shows "partial_sigs r' = [] \<and> sighash r' = Some 0 \<and> redeem_script r' = []
         \<and> witness_script r' = [] \<and> hd_keypaths r' = [] \<and> por_commitment r' = None
         \<and> final_script_sig r' \<noteq> []"
  using assms
  by (auto simp: finalize_input_def split: if_splits sum.splits)

text \<open>
  Claim C5. \<open>finalize_psbt\<close> fails on every container with an input record whose
  \<open>partial_sigs\<close> is empty, so it returns no final fields for it. When it succeeds,
  every input record of the result has \<open>partial_sigs\<close>, \<open>sighash\<close>, \<open>redeem_script\<close>,
  \<open>witness_script\<close>, \<open>hd_keypaths\<close> and \<open>por_commitment\<close> cleared and a non-empty
  \<open>final_script_sig\<close>; every record of the result then fails the step of the finalizer
  with the assertion on \<open>partial_sigs\<close>, and so does \<open>finalize_psbt\<close> on the result, which
  has a record whenever the skeleton has an input.
\<close>

theorem finalize_psbt_precondition:
  "(list_ex (\<lambda>r. partial_sigs r = []) (inputs p) \<longrightarrow> (\<exists>e. finalize_psbt E p = Inl e))
   \<and> (finalize_psbt E p = Inr p' \<longrightarrow>
        list_all (\<lambda>r. partial_sigs r = [] \<and> sighash r = Some 0 \<and> redeem_script r = []
                      \<and> witness_script r = [] \<and> hd_keypaths r = []
                      \<and> por_commitment r = None \<and> final_script_sig r \<noteq> []) (inputs p')
        \<and> list_all (\<lambda>r. finalize_input E r = Inl (AssertionError ''psbt_in.partial_sigs''))
             (inputs p')
        \<and> (inputs p' \<noteq> [] \<longrightarrow>
             finalize_psbt E p' = Inl (AssertionError ''psbt_in.partial_sigs'')))"
proof (intro conjI impI)
  assume "list_ex (\<lambda>r. partial_sigs r = []) (inputs p)"
  then have "list_ex (\<lambda>r. \<exists>e. finalize_input E r = Inl e) (inputs p)"
    by (force simp: list_ex_iff finalize_input_no_sigs)
  from map_res_fails[OF this] show "\<exists>e. finalize_psbt E p = Inl e"
    by (auto simp: finalize_psbt_def)
next
  assume fin: "finalize_psbt E p = Inr p'"
  then obtain ins where ins: "map_res (finalize_input E) (inputs p) = Inr ins"
    and p': "p' = p\<lparr>inputs := ins\<rparr>"
    by (auto simp: finalize_psbt_def split: sum.splits)
  from ins have all: "list_all2 (\<lambda>r r'. finalize_input E r = Inr r') (inputs p) ins"
    by (simp add: map_res_Inr_iff)
  show cleared: "list_all (\<lambda>r. partial_sigs r = [] \<and> sighash r = Some 0 \<and> redeem_script r = []
                      \<and> witness_script r = [] \<and> hd_keypaths r = []
                      \<and> por_commitment r = None \<and> final_script_sig r \<noteq> []) (inputs p')"
    unfolding list_all_iff
  proof
    fix r' assume "r' \<in> set (inputs p')"
    with p' have "r' \<in> set ins" by simp
    with all obtain r where "finalize_input E r = Inr r'"
      by (auto simp: list_all2_conv_all_nth in_set_conv_nth)
    from finalize_input_cleared[OF this]
    show "partial_sigs r' = [] \<and> sighash r' = Some 0 \<and> redeem_script r' = []
                      \<and> witness_script r' = [] \<and> hd_keypaths r' = []
                      \<and> por_commitment r' = None \<and> final_script_sig r' \<noteq> []" .
  qed
  then show again: "list_all (\<lambda>r. finalize_input E r = Inl (AssertionError ''psbt_in.partial_sigs''))
             (inputs p')"
    by (auto simp: list_all_iff finalize_input_no_sigs)
  assume "inputs p' \<noteq> []"
  then obtain r rs where rs: "inputs p' = r # rs" by (cases "inputs p'") auto
  with again have "finalize_input E r = Inl (AssertionError ''psbt_in.partial_sigs'')" by simp
  then show "finalize_psbt E p' = Inl (AssertionError ''psbt_in.partial_sigs'')"
    by (simp add: finalize_psbt_def rs)
qed

lemma finalize_psbt_nth:
  assumes "finalize_psbt E p = Inr p'" and "i < length (inputs p)"
  shows "finalize_input E (inputs p ! i) = Inr (inputs p' ! i)"
proof -
  from assms(1) obtain ins where ins: "map_res (finalize_input E) (inputs p) = Inr ins"
    and p': "p' = p\<lparr>inputs := ins\<rparr>"
    by (auto simp: finalize_psbt_def split: sum.splits)
  from map_res_nth[OF ins assms(2)] p' show ?thesis by simp
qed

lemma finalize_psbt_total:
  assumes "list_all (\<lambda>r. \<exists>r'. finalize_input E r = Inr r') (inputs p)"
  shows "\<exists>p'. finalize_psbt E p = Inr p'"
  using map_res_total[OF assms] by (auto simp: finalize_psbt_def)

text \<open>
  Claim C2. For an input record with a witness script \<open>S\<close> and the partial signatures
  \<open>pubkey1 \<mapsto> sig1\<close>, \<open>pubkey2 \<mapsto> sig2\<close> in this order, the finalizer returns a record
  whose \<open>final_script_witness\<close> is the empty placeholder, \<open>sig1\<close>, \<open>sig2\<close> and the hex of the
  encoded \<open>S\<close>, and whose \<open>final_script_sig\<close> is the single token of the encoded redeem
  script (upper-case hex); that record is the one \<open>finalize_psbt\<close> returns at the same
  index, and \<open>finalize_psbt\<close> returns when every record has a partial signature and
  scripts the script codec encodes.
\<close>

theorem finalize_witness_script_2_of_2:
  assumes "i < length (inputs p)"
    and "witness_script (inputs p ! i) \<noteq> []"
    and "partial_sigs (inputs p ! i) = [(pubkey1, sig1), (pubkey2, sig2)]"
    and "script_encode E (witness_script (inputs p ! i)) = Inr ws"
    and "script_encode E (redeem_script (inputs p ! i)) = Inr rs"
  shows "\<exists>r'. finalize_input E (inputs p ! i) = Inr r'
           \<and> final_script_witness r' = ['''', sig1, sig2, hex ws]
           \<and> final_script_sig r' = [TStr (upper (hex rs))]
           \<and> (\<forall>p'. finalize_psbt E p = Inr p' \<longrightarrow> inputs p' ! i = r')
           \<and> (list_all (\<lambda>r. partial_sigs r \<noteq> [] \<and> (\<exists>b. script_encode E (redeem_script r) = Inr b)
                             \<and> (\<exists>b. script_encode E (witness_script r) = Inr b)) (inputs p)
                \<longrightarrow> (\<exists>p'. finalize_psbt E p = Inr p'))"
proof -
  define r' where "r' = (inputs p ! i)
      \<lparr>final_script_sig := [TStr (upper (hex rs))],
       final_script_witness := ['''', sig1, sig2, hex ws],
       partial_sigs := [], sighash := Some 0, redeem_script := [],
       witness_script := [], hd_keypaths := [], por_commitment := None\<rparr>"
  have fin: "finalize_input E (inputs p ! i) = Inr r'"
    using assms(2-5) by (simp add: finalize_input_def r'_def dict_values_def)
  have "\<forall>p'. finalize_psbt E p = Inr p' \<longrightarrow> inputs p' ! i = r'"
    using finalize_psbt_nth[OF _ assms(1)] fin by auto
  moreover have "list_all (\<lambda>r. partial_sigs r \<noteq> [] \<and> (\<exists>b. script_encode E (redeem_script r) = Inr b)
                             \<and> (\<exists>b. script_encode E (witness_script r) = Inr b)) (inputs p)
                \<longrightarrow> (\<exists>p'. finalize_psbt E p = Inr p')"
  proof
    assume a: "list_all (\<lambda>r. partial_sigs r \<noteq> [] \<and> (\<exists>b. script_encode E (redeem_script r) = Inr b)
                             \<and> (\<exists>b. script_encode E (witness_script r) = Inr b)) (inputs p)"
    have "list_all (\<lambda>r. \<exists>r'. finalize_input E r = Inr r') (inputs p)"
      unfolding list_all_iff
    proof
      fix r assume "r \<in> set (inputs p)"
      with a have "partial_sigs r \<noteq> []" and "\<exists>b. script_encode E (redeem_script r) = Inr b"
        and "\<exists>b. script_encode E (witness_script r) = Inr b"
        by (auto simp: list_all_iff)
      then show "\<exists>r'. finalize_input E r = Inr r'"
        by (auto simp: finalize_input_def)
    qed
    then show "\<exists>p'. finalize_psbt E p = Inr p'" by (rule finalize_psbt_total)
  qed
  ultimately show ?thesis using fin by (auto simp: r'_def)
qed

section \<open>The extractor\<close>

lemma py_index_nat: "i < length xs \<Longrightarrow> py_index xs (int i) = Inr (xs ! i)"
  by (simp add: py_index_def)

lemma py_index_nat_out: "length xs \<le> i \<Longrightarrow> py_index xs (int i) = Inl IndexError"
  by (simp add: py_index_def)

lemma extract_tx_total:
  assumes "length (vin (tx p)) \<le> length (inputs p)"
  shows "\<exists>vin'. map_res (extract_input (inputs p)) (zip [0 ..< length (vin (tx p))] (vin (tx p)))
           = Inr vin'"
proof (rule map_res_total)
  show "list_all (\<lambda>x. \<exists>y. extract_input (inputs p) x = Inr y)
          (zip [0 ..< length (vin (tx p))] (vin (tx p)))"
    unfolding list_all_iff
  proof
    fix x assume a: "x \<in> set (zip [0 ..< length (vin (tx p))] (vin (tx p)))"
    obtain i v where x: "x = (i, v)" by (cases x)
    from a x have "i \<in> set [0 ..< length (vin (tx p))]" by (auto dest: set_zip_leftD)
    then have i: "i < length (vin (tx p))" by simp
    with assms have "i < length (inputs p)" by simp
    then show "\<exists>y. extract_input (inputs p) x = Inr y"
      by (simp add: extract_input_def x py_index_nat)
  qed
qed

text \<open>
  Claim C10. On a finalized container with one record per input of a non-empty skeleton,
  \<open>extract_tx\<close> returns the transaction of the container itself: the state of the argument
  after the call is the argument with that transaction. Every input of it has the
  \<open>final_script_sig\<close> of its record as \<open>scriptSig\<close> and the \<open>final_script_witness\<close> as witness
  when that is not empty (its old witness otherwise). The argument's skeleton then carries
  unlocking data and the validator refuses the argument.
\<close>

theorem extract_tx_mutates_bound_transaction:
  assumes fin: "finalize_psbt E p0 = Inr p"
    and len: "length (inputs p) = length (vin (tx p))"
    and ne: "vin (tx p) \<noteq> []"
  shows "\<exists>t p'. extract_tx p = Inr (t, p') \<and> tx p' = t \<and> p' = p\<lparr>tx := t\<rparr>
           \<and> length (vin t) = length (vin (tx p))
           \<and> (\<forall>i < length (vin t).
                 scriptSig (vin t ! i) = final_script_sig (inputs p ! i)
               \<and> txinwitness (vin t ! i) =
                   (if final_script_witness (inputs p ! i) \<noteq> []
                    then final_script_witness (inputs p ! i)
                    else txinwitness (vin (tx p) ! i)))
           \<and> scriptSig (hd (vin (tx p'))) \<noteq> []
           \<and> Psbt_assert_valid E p' = Inl (AssertionError ''vin.scriptSig == []'')"
proof -
  let ?zs = "zip [0 ..< length (vin (tx p))] (vin (tx p))"
  from len extract_tx_total[of p] obtain vin' where
    vin': "map_res (extract_input (inputs p)) ?zs = Inr vin'" by auto
  define t where "t = (tx p)\<lparr>vin := vin'\<rparr>"
  have ex: "extract_tx p = Inr (t, p\<lparr>tx := t\<rparr>)"
    by (simp add: extract_tx_def vin' t_def)
  have l: "length vin' = length (vin (tx p))"
    using map_res_length[OF vin'] by simp
  have nth: "vin' ! i = (vin (tx p) ! i)\<lparr>scriptSig := final_script_sig (inputs p ! i),
                   txinwitness := (if final_script_witness (inputs p ! i) \<noteq> []
                                   then final_script_witness (inputs p ! i)
                                   else txinwitness (vin (tx p) ! i))\<rparr>"
    if i: "i < length (vin (tx p))" for i
  proof -
    from i have "i < length ?zs" by simp
    from map_res_nth[OF vin' this] i len show ?thesis
      by (simp add: extract_input_def py_index_nat)
  qed
  from ne l obtain v vs where vs: "vin' = v # vs" by (cases vin') auto
  from ne have i0: "0 < length (vin (tx p))" by simp
  have "0 < length (inputs p0)"
    using fin i0 len by (auto simp: finalize_psbt_def split: sum.splits dest: map_res_length)
  from finalize_psbt_nth[OF fin this] have "final_script_sig (inputs p ! 0) \<noteq> []"
    by (auto dest: finalize_input_cleared)
  with nth[OF i0] vs have v: "scriptSig v \<noteq> []" by simp
  then have inv: "Psbt_assert_valid E (p\<lparr>tx := t\<rparr>) = Inl (AssertionError ''vin.scriptSig == []'')"
    by (simp add: Psbt_assert_valid_def t_def vs assert_no_unlocking_data_def)
  show ?thesis
    using ex l nth inv v vs by (auto simp: t_def)
qed


section \<open>The combiner\<close>

lemma map_res_upt_nth:
  assumes "\<And>i. i < length ys \<Longrightarrow> f i = Inr (ys ! i)"
  shows "map_res f [0 ..< length ys] = Inr ys"
  unfolding map_res_Inr_iff
  using assms by (simp add: list_all2_conv_all_nth)

lemma update_present:
  "distinct (map fst d) \<Longrightarrow> (k, v) \<in> set d \<Longrightarrow> AList.update k v d = d"
  by (simp add: update_triv)

lemma dict_update_subset:
  assumes "distinct (map fst d)" and "set e \<subseteq> set d"
  shows "dict_update d e = d"
  using assms(2) unfolding dict_update_def
proof (induction e)
  case Nil
  show ?case by simp
next
  case (Cons kv e)
  obtain k v where kv: "kv = (k, v)" by (cases kv)
  with Cons.prems have "(k, v) \<in> set d" by simp
  with assms(1) have "AList.update k v d = d" by (rule update_present)
  with Cons kv show ?case by simp
qed

lemma combine_dict_self: "distinct (dict_keys d) \<Longrightarrow> combine_dict d d = d"
  by (simp add: combine_dict_def dict_keys_def dict_update_subset)

lemma combine_list_subset:
  "set e \<subseteq> set l \<Longrightarrow> fold (\<lambda>x acc. if x \<in> set acc then acc else acc @ [x]) e l = l"
  by (induction e) auto

lemma combine_list_self: "combine_list l l = l"
  by (simp add: combine_list_def combine_list_subset)

lemma combine_scalar_self: "combine_scalar key truthy v v = Inr v"
  by (simp add: combine_scalar_def)

lemma map_of_dict_update:
  "distinct (map fst e) \<Longrightarrow> map_of (dict_update d e) = map_of d ++ map_of e"
  unfolding dict_update_def
proof (induction e arbitrary: d)
  case Nil
  show ?case by simp
next
  case (Cons kv e)
  obtain k v where kv: "kv = (k, v)" by (cases kv)
  from Cons.prems kv have k: "map_of e k = None" and e: "distinct (map fst e)"
    by (auto simp: map_of_eq_None_iff)
  have "map_of (fold (\<lambda>(k, v). AList.update k v) (kv # e) d)
          = map_of (fold (\<lambda>(k, v). AList.update k v) e (AList.update k v d))"
    by (simp add: kv)
  also have "\<dots> = map_of (AList.update k v d) ++ map_of e" by (rule Cons.IH[OF e])
  also have "\<dots> = map_of d ++ map_of (kv # e)"
    unfolding kv using k
    by (intro ext) (auto simp: update_conv' map_add_def split: option.splits)
  finally show ?case .
qed

lemma map_of_combine_dict:
  "distinct (dict_keys e) \<Longrightarrow> map_of (combine_dict d e) = map_of d ++ map_of e"
  by (simp add: combine_dict_def map_of_dict_update dict_keys_def)

lemma combine_input_self:
  assumes "PsbtInput_keys_distinct r"
  shows "combine_input r r = Inr r"
  using assms
  by (simp add: combine_input_def PsbtInput_keys_distinct_def combine_scalar_self
      combine_dict_self combine_list_self)

lemma combine_output_self:
  assumes "PsbtOutput_keys_distinct r"
  shows "combine_output r r = Inr r"
  using assms
  by (simp add: combine_output_def PsbtOutput_keys_distinct_def combine_dict_self combine_list_self)

lemma combine_scalar_agrees:
  "scalar_agrees truthy out_v new_v \<Longrightarrow> \<exists>v. combine_scalar key truthy out_v new_v = Inr v"
  by (auto simp: combine_scalar_def scalar_agrees_def)

lemma combine_input_agree:
  assumes "PsbtInput_scalars_agree out psbt_map"
  shows "\<exists>r. combine_input psbt_map out = Inr r
           \<and> partial_sigs r = combine_dict (partial_sigs out) (partial_sigs psbt_map)"
proof -
  from assms obtain a b c d where
    "combine_scalar ''non_witness_utxo'' truthy_obj
             (non_witness_utxo out) (non_witness_utxo psbt_map) = Inr a"
    "combine_scalar ''witness_utxo'' truthy_obj (witness_utxo out) (witness_utxo psbt_map) = Inr b"
    "combine_scalar ''sighash'' truthy_int (sighash out) (sighash psbt_map) = Inr c"
    "combine_scalar ''por_commitment'' truthy_str
             (por_commitment out) (por_commitment psbt_map) = Inr d"
    unfolding PsbtInput_scalars_agree_def
    by (meson combine_scalar_agrees)
  then show ?thesis by (simp add: combine_input_def)
qed

text \<open>
  Claim C4. Combining a container with itself returns the container: for a container
  whose transaction has an id and whose dictionaries have each key once,
  \<open>combine_psbts\<close> on the list of the container twice returns that container and raises
  nothing.
\<close>

theorem combine_psbts_idempotent:
  assumes txid: "Tx_txid E (tx A) = Inr txid"
    and keys: "Psbt_keys_distinct A"
  shows "combine_psbts E [A, A] = Inr A"
proof -
  have ins: "map_res (\<lambda>x. case map_res (\<lambda>p. py_index (inputs p) (int x)) [A, A] of
                              Inl e \<Rightarrow> Inl e
                            | Inr maps \<Rightarrow> combine_input_maps maps)
               [0 ..< length (inputs A)] = Inr (inputs A)"
  proof (rule map_res_upt_nth)
    fix i assume i: "i < length (inputs A)"
    with keys have "PsbtInput_keys_distinct (inputs A ! i)"
      by (simp add: Psbt_keys_distinct_def list_all_length)
    then show "(case map_res (\<lambda>p. py_index (inputs p) (int i)) [A, A] of
                  Inl e \<Rightarrow> Inl e
                | Inr maps \<Rightarrow> combine_input_maps maps) = Inr (inputs A ! i)"
      using i by (simp add: py_index_nat combine_input_maps_def combine_input_self)
  qed
  have outs: "map_res (\<lambda>x. case map_res (\<lambda>p. py_index (outputs p) (int x)) [A, A] of
                              Inl e \<Rightarrow> Inl e
                            | Inr maps \<Rightarrow> combine_output_maps maps)
               [0 ..< length (outputs A)] = Inr (outputs A)"
  proof (rule map_res_upt_nth)
    fix i assume i: "i < length (outputs A)"
    with keys have "PsbtOutput_keys_distinct (outputs A ! i)"
      by (simp add: Psbt_keys_distinct_def list_all_length)
    then show "(case map_res (\<lambda>p. py_index (outputs p) (int i)) [A, A] of
                  Inl e \<Rightarrow> Inl e
                | Inr maps \<Rightarrow> combine_output_maps maps) = Inr (outputs A ! i)"
      using i by (simp add: py_index_nat combine_output_maps_def combine_output_self)
  qed
  from keys have u: "combine_dict (psbt_unknown A) (psbt_unknown A) = psbt_unknown A"
    by (simp add: Psbt_keys_distinct_def combine_dict_self)
  show ?thesis
    by (simp add: combine_psbts_def txid assert_same_txid_def ins outs u del: map_res.simps)
qed

lemma map_add_case:
  "(m ++ n) k = (case n k of Some v \<Rightarrow> Some v | None \<Rightarrow> m k)"
  by (simp add: map_add_def)

text \<open>
  Claim C3. For two containers \<open>A\<close> and \<open>B\<close> with the same transaction id, \<open>B\<close> with no more
  records than \<open>A\<close>, whose input records agree on their scalar attributes,
  \<open>combine_psbts\<close> on \<open>[A, B]\<close> returns a container whose input record at every index of
  \<open>B\<close> holds the union of the two \<open>partial_sigs\<close> dictionaries: a key of \<open>B\<close> has the value
  of \<open>B\<close> (the later container wins), any other key has the value of \<open>A\<close>.
\<close>

theorem combine_psbts_unions_partial_sigs:
  assumes txA: "Tx_txid E (tx A) = Inr txid"
    and txB: "Tx_txid E (tx B) = Inr txid"
    and lin: "length (inputs B) \<le> length (inputs A)"
    and lout: "length (outputs B) \<le> length (outputs A)"
    and agree: "\<forall>i < length (inputs B). PsbtInput_scalars_agree (inputs A ! i) (inputs B ! i)"
    and dist: "\<forall>i < length (inputs B). distinct (dict_keys (partial_sigs (inputs B ! i)))"
  shows "\<exists>C. combine_psbts E [A, B] = Inr C \<and> length (inputs C) = length (inputs A)
           \<and> (\<forall>i < length (inputs B).
                 partial_sigs (inputs C ! i)
                   = combine_dict (partial_sigs (inputs A ! i)) (partial_sigs (inputs B ! i))
               \<and> (\<forall>k. map_of (partial_sigs (inputs C ! i)) k
                         = (case map_of (partial_sigs (inputs B ! i)) k of
                              Some v \<Rightarrow> Some v
                            | None \<Rightarrow> map_of (partial_sigs (inputs A ! i)) k)))"
proof -
  let ?fi = "\<lambda>x. case map_res (\<lambda>p. py_index (inputs p) (int x)) [A, B] of
                    Inl e \<Rightarrow> Inl e
                  | Inr maps \<Rightarrow> combine_input_maps maps"
  let ?fo = "\<lambda>x. case map_res (\<lambda>p. py_index (outputs p) (int x)) [A, B] of
                    Inl e \<Rightarrow> Inl e
                  | Inr maps \<Rightarrow> combine_output_maps maps"
  have fi: "?fi i = combine_input (inputs B ! i) (inputs A ! i)" if "i < length (inputs B)" for i
    using that lin by (simp add: py_index_nat combine_input_maps_def split: sum.splits)
  have fo: "?fo i = combine_output (outputs B ! i) (outputs A ! i)" if "i < length (outputs B)" for i
    using that lout by (simp add: py_index_nat combine_output_maps_def split: sum.splits)
  have "list_all (\<lambda>x. \<exists>y. ?fi x = Inr y) [0 ..< length (inputs B)]"
    unfolding list_all_iff
  proof
    fix i assume "i \<in> set [0 ..< length (inputs B)]"
    then have i: "i < length (inputs B)" by simp
    with agree have "PsbtInput_scalars_agree (inputs A ! i) (inputs B ! i)" by simp
    from combine_input_agree[OF this] fi[OF i] show "\<exists>y. ?fi i = Inr y" by auto
  qed
  from map_res_total[OF this] obtain ins where
    ins: "map_res ?fi [0 ..< length (inputs B)] = Inr ins" by blast
  have "list_all (\<lambda>x. \<exists>y. ?fo x = Inr y) [0 ..< length (outputs B)]"
    unfolding list_all_iff
  proof
    fix i assume "i \<in> set [0 ..< length (outputs B)]"
    then have i: "i < length (outputs B)" by simp
    from fo[OF i] show "\<exists>y. ?fo i = Inr y" by (simp add: combine_output_def)
  qed
  from map_res_total[OF this] obtain outs where
    outs: "map_res ?fo [0 ..< length (outputs B)] = Inr outs" by blast
  define C where "C = A\<lparr>inputs := ins @ drop (length ins) (inputs A), outputs := outs,
      psbt_unknown := fold (\<lambda>p u. combine_dict u (psbt_unknown p)) [A, B] (psbt_unknown A)\<rparr>"
  have comb: "combine_psbts E [A, B] = Inr C"
    by (simp add: combine_psbts_def txA txB assert_same_txid_def ins outs C_def
        del: map_res.simps)
  have li: "length ins = length (inputs B)"
    using map_res_length[OF ins] by simp
  have lC: "length (inputs C) = length (inputs A)"
    using li lin by (simp add: C_def)
  have nth: "partial_sigs (inputs C ! i)
               = combine_dict (partial_sigs (inputs A ! i)) (partial_sigs (inputs B ! i))"
    if i: "i < length (inputs B)" for i
  proof -
    from i have "i < length [0 ..< length (inputs B)]" by simp
    from map_res_nth[OF ins this] i have "?fi i = Inr (ins ! i)" by simp
    with fi[OF i] have c: "combine_input (inputs B ! i) (inputs A ! i) = Inr (ins ! i)" by simp
    from agree i have "PsbtInput_scalars_agree (inputs A ! i) (inputs B ! i)" by simp
    from combine_input_agree[OF this] c
    have "partial_sigs (ins ! i)
            = combine_dict (partial_sigs (inputs A ! i)) (partial_sigs (inputs B ! i))" by auto
    moreover have "inputs C ! i = ins ! i" using i li by (simp add: C_def nth_append)
    ultimately show ?thesis by simp
  qed
  have un: "map_of (partial_sigs (inputs C ! i)) k
              = (case map_of (partial_sigs (inputs B ! i)) k of
                   Some v \<Rightarrow> Some v
                 | None \<Rightarrow> map_of (partial_sigs (inputs A ! i)) k)"
    if i: "i < length (inputs B)" for i k
  proof -
    from dist i have "distinct (dict_keys (partial_sigs (inputs B ! i)))" by simp
    from map_of_combine_dict[OF this, of "partial_sigs (inputs A ! i)"] nth[OF i]
    show ?thesis by (simp add: map_add_case)
  qed
  from comb lC nth un show ?thesis by blast
qed


section \<open>The validator\<close>

lemma fold_res_unit_Inr_iff:
  "fold_res (\<lambda>v _. f v) vs () = Inr () \<longleftrightarrow> list_all (\<lambda>v. f v = Inr ()) vs"
  by (induction vs) (auto split: sum.splits)

lemma assert_no_unlocking_data_Inr:
  "assert_no_unlocking_data v = Inr () \<longleftrightarrow> scriptSig v = [] \<and> txinwitness v = []"
  by (simp add: assert_no_unlocking_data_def)

lemma first_loop_fails:
  "list_ex (\<lambda>v. scriptSig v \<noteq> [] \<or> txinwitness v \<noteq> []) vs \<Longrightarrow>
     fold_res (\<lambda>v _. assert_no_unlocking_data v) vs () = Inl (AssertionError ''vin.scriptSig == []'')
   \<or> fold_res (\<lambda>v _. assert_no_unlocking_data v) vs () = Inl (AssertionError ''vin.txinwitness == []'')"
proof (induction vs)
  case Nil
  then show ?case by simp
next
  case (Cons v vs)
  show ?case
  proof (cases "scriptSig v = [] \<and> txinwitness v = []")
    case True
    with Cons show ?thesis by (simp add: assert_no_unlocking_data_def)
  next
    case False
    then show ?thesis by (auto simp: assert_no_unlocking_data_def)
  qed
qed

lemma Psbt_assert_valid_skeleton:
  assumes "Psbt_assert_valid E p = Inr ()"
  shows "list_all (\<lambda>v. scriptSig v = [] \<and> txinwitness v = []) (vin (tx p))"
proof -
  from assms have "fold_res (\<lambda>v _. assert_no_unlocking_data v) (vin (tx p)) () = Inr ()"
    by (auto simp: Psbt_assert_valid_def split: sum.splits)
  then show ?thesis
    by (simp add: fold_res_unit_Inr_iff assert_no_unlocking_data_Inr)
qed

text \<open>
  Claim C9. A container the validator accepts, and so every container \<open>Psbt_deserialize\<close>
  returns (it runs the validator on the new object), has a skeleton in which the
  \<open>scriptSig\<close> and the witness of every input are empty; a container with an input whose
  \<open>scriptSig\<close> or witness is not empty fails validation with the assertion of the first
  loop.
\<close>

theorem validated_skeleton_has_no_unlocking_data:
  "(Psbt_assert_valid E p = Inr () \<longrightarrow>
      list_all (\<lambda>v. scriptSig v = [] \<and> txinwitness v = []) (vin (tx p)))
   \<and> (Psbt_deserialize E s = Inr q \<longrightarrow>
      list_all (\<lambda>v. scriptSig v = [] \<and> txinwitness v = []) (vin (tx q)))
   \<and> (list_ex (\<lambda>v. scriptSig v \<noteq> [] \<or> txinwitness v \<noteq> []) (vin (tx p)) \<longrightarrow>
        Psbt_assert_valid E p = Inl (AssertionError ''vin.scriptSig == []'')
      \<or> Psbt_assert_valid E p = Inl (AssertionError ''vin.txinwitness == []''))"
proof (intro conjI impI)
  assume "Psbt_assert_valid E p = Inr ()"
  then show "list_all (\<lambda>v. scriptSig v = [] \<and> txinwitness v = []) (vin (tx p))"
    by (rule Psbt_assert_valid_skeleton)
next
  assume "Psbt_deserialize E s = Inr q"
  then have "Psbt_assert_valid E q = Inr ()"
    by (auto simp: Psbt_deserialize_def split: sum.splits)
  then show "list_all (\<lambda>v. scriptSig v = [] \<and> txinwitness v = []) (vin (tx q))"
    by (rule Psbt_assert_valid_skeleton)
next
  assume "list_ex (\<lambda>v. scriptSig v \<noteq> [] \<or> txinwitness v \<noteq> []) (vin (tx p))"
  from first_loop_fails[OF this]
  show "Psbt_assert_valid E p = Inl (AssertionError ''vin.scriptSig == []'')
      \<or> Psbt_assert_valid E p = Inl (AssertionError ''vin.txinwitness == []'')"
    by (auto simp: Psbt_assert_valid_def)
qed

text \<open>A record with neither UTXO and no script passes, whatever value \<open>scriptPubKey\<close> has.\<close>

lemma assert_valid_input_no_utxo_no_script:
  assumes "i < length ins"
    and "non_witness_utxo (ins ! i) = None" and "witness_utxo (ins ! i) = None"
    and "redeem_script (ins ! i) = []" and "witness_script (ins ! i) = []"
  shows "assert_valid_input E ins (i, tx_in) spk = Inr spk"
  using assms by (simp add: assert_valid_input_def py_index_def bind_scriptPubKey_def)

text \<open>
  Claim C7, on the code. The claim says that an input whose record has neither UTXO is
  not an error even when the record has a redeem script or a witness script. In the
  source the variable \<open>scriptPubKey\<close> is bound only under a UTXO: for the first input of a
  skeleton without unlocking data, a record with neither UTXO and with a script the
  script codec encodes makes the validator raise UnboundLocalError.
\<close>

theorem assert_valid_script_without_utxo_unbound:
  assumes "list_all (\<lambda>v. scriptSig v = [] \<and> txinwitness v = []) (vin (tx p))"
    and "vin (tx p) \<noteq> []" and "inputs p \<noteq> []"
    and "non_witness_utxo (hd (inputs p)) = None" and "witness_utxo (hd (inputs p)) = None"
    and "redeem_script (hd (inputs p)) \<noteq> [] \<or> witness_script (hd (inputs p)) \<noteq> []"
    and "script_encode E (redeem_script (hd (inputs p))) = Inr rs"
    and "script_encode E (witness_script (hd (inputs p))) = Inr ws"
  shows "Psbt_assert_valid E p = Inl (UnboundLocalError ''scriptPubKey'')"
proof -
  from assms(2) obtain v vs where vs: "vin (tx p) = v # vs" by (cases "vin (tx p)") auto
  from assms(3) obtain r rs' where rs: "inputs p = r # rs'" by (cases "inputs p") auto
  from assms(1) have first: "fold_res (\<lambda>v _. assert_no_unlocking_data v) (vin (tx p)) () = Inr ()"
    by (simp add: fold_res_unit_Inr_iff assert_no_unlocking_data_Inr)
  have "[0 ..< length (vin (tx p))] = 0 # [Suc 0 ..< length (vin (tx p))]"
    by (rule upt_conv_Cons) (simp add: vs)
  then obtain zs where z: "zip [0 ..< length (vin (tx p))] (vin (tx p)) = (0, v) # zs"
    by (simp add: vs)
  have "assert_valid_input E (inputs p) (0, v) None = Inl (UnboundLocalError ''scriptPubKey'')"
    using assms(4-8) 
    by (auto simp: rs assert_valid_input_def py_index_def bind_scriptPubKey_def assert_payload_def)
  then show ?thesis
    by (simp add: Psbt_assert_valid_def first z)
qed

section \<open>The partial-signature key in the two decoders\<close>

lemma PsbtInput_decode_item_partial_sig:
  "PsbtInput_decode_item E (0x02 # pubkey, sig) r =
     (if length pubkey = 33
      then Inr (r\<lparr>partial_sigs := AList.update (hex pubkey) (hex sig) (partial_sigs r)\<rparr>)
      else Inl (AssertionError ''len(key) == 33 + 1''))"
  by (simp add: PsbtInput_decode_item_def)

lemma deserialize_partial_sigs_iff:
  "deserialize_partial_sigs (0x02 # pubkey) sig =
     (if length pubkey = 33 \<or> length pubkey = 65 then Inr [(pubkey, sig)]
      else Inl (BTClibValueError ''invalid partial signature pubkey length''))"
  by (simp add: deserialize_partial_sigs_def)

text \<open>
  Claim C6, on the code. A partial-signature key with the 65 bytes of an uncompressed
  public key after the tag is refused by \<open>PsbtInput_decode\<close> of psbt.py, whose assertion
  admits 33 bytes only, and accepted by \<open>deserialize_partial_sigs\<close> of psbt\_in.py.
\<close>

theorem partial_sig_key_of_65_bytes:
  assumes "length pubkey = 65"
  shows "PsbtInput_decode E [(0x02 # pubkey, sig)] = Inl (AssertionError ''len(key) == 33 + 1'')
         \<and> deserialize_partial_sigs (0x02 # pubkey) sig = Inr [(pubkey, sig)]"
  using assms
  by (simp add: PsbtInput_decode_def PsbtInput_decode_item_partial_sig deserialize_partial_sigs_iff)


section \<open>The concrete containers\<close>

lemma demo_script_encode_Cons:
  "0 \<le> n \<Longrightarrow> n < 256 \<Longrightarrow>
   demo_script_encode (TInt n # ts) =
     (case demo_script_encode ts of Inl e \<Rightarrow> Inl e | Inr bs \<Rightarrow> Inr (of_int n # bs))"
  by (simp add: demo_script_encode_def demo_token_byte_def)

lemma demo_script_encode_Nil: "demo_script_encode [] = Inr []"
  by (simp add: demo_script_encode_def)

lemma demo_collab_simps:
  "script_encode demo_collab = demo_script_encode"
  "script_decode demo_collab = demo_script_decode"
  "script_serialize demo_collab = demo_script_serialize"
  "txin_serialize demo_collab = demo_txin_serialize"
  "txin_deserialize demo_collab = demo_txin_deserialize"
  "txin_assert_valid demo_collab = (\<lambda>i. Inr ())"
  "txout_serialize demo_collab = demo_txout_serialize"
  "txout_deserialize demo_collab = demo_txout_deserialize"
  "txout_assert_valid demo_collab = (\<lambda>out. Inr ())"
  "witness_serialize demo_collab = demo_witness_serialize"
  "witness_deserialize demo_collab = demo_witness_deserialize"
  "hash160 demo_collab = (\<lambda>bs. bs)"
  "sha256 demo_collab = (\<lambda>bs. bs)"
  "hash256 demo_collab = (\<lambda>bs. bs)"
  "payload_from_scriptPubKey demo_collab = (\<lambda>s. demo_script_encode (drop 1 s))"
  "b64encode demo_collab = hex"
  "b64decode demo_collab = fromhex"
  by (simp_all add: demo_collab_def)

lemma demo_inputs:
  "inputs demo_unsigned = [PsbtInput_default]"
  "inputs demo_signed = [demo_input\<lparr>partial_sigs := [(demo_pubkey1, demo_sig1),
                                                     (demo_pubkey2, demo_sig2)]\<rparr>]"
  "inputs demo_signed1 = [demo_input\<lparr>partial_sigs := [(demo_pubkey1, demo_sig1)]\<rparr>]"
  "inputs demo_signed2 = [demo_input\<lparr>partial_sigs := [(demo_pubkey2, demo_sig2)]\<rparr>]"
  "inputs demo_no_utxo = [PsbtInput_default\<lparr>redeem_script := [TInt 0x00, TInt 0x52, TInt 0xAE]\<rparr>]"
  by (simp_all add: demo_unsigned_def demo_signed_def demo_signed1_def demo_signed2_def
      demo_no_utxo_def psbt_from_tx_def demo_tx_def)

lemma demo_tx_of:
  "tx demo_unsigned = demo_tx" "tx demo_signed = demo_tx" "tx demo_signed1 = demo_tx"
  "tx demo_signed2 = demo_tx" "tx demo_no_utxo = demo_tx"
  by (simp_all add: demo_unsigned_def demo_signed_def demo_signed1_def demo_signed2_def
      demo_no_utxo_def psbt_from_tx_def demo_tx_def)

lemma demo_input_fields:
  "redeem_script demo_input = [TInt 0x00, TInt 0x52, TInt 0xAE]"
  "witness_script demo_input = [TInt 0x52, TInt 0xAE]"
  "non_witness_utxo demo_input = None"
  "witness_utxo demo_input = Some \<lparr>nValue = 1000,
      scriptPubKey = [TInt 0xA9, TInt 0x00, TInt 0x52, TInt 0xAE]\<rparr>"
  "partial_sigs demo_input = []"
  by (simp_all add: demo_input_def PsbtInput_default_def)

lemma demo_encodings:
  "demo_script_encode [TInt 0x52, TInt 0xAE] = Inr [0x52, 0xAE]"
  "demo_script_encode [TInt 0x00, TInt 0x52, TInt 0xAE] = Inr [0x00, 0x52, 0xAE]"
  by (simp_all add: demo_script_encode_Cons demo_script_encode_Nil)

theorem finalize_witness_script_2_of_2_witness:
  "0 < length (inputs demo_signed)
   \<and> witness_script (inputs demo_signed ! 0) \<noteq> []
   \<and> partial_sigs (inputs demo_signed ! 0) = [(demo_pubkey1, demo_sig1), (demo_pubkey2, demo_sig2)]
   \<and> script_encode demo_collab (witness_script (inputs demo_signed ! 0)) = Inr [0x52, 0xAE]
   \<and> script_encode demo_collab (redeem_script (inputs demo_signed ! 0)) = Inr [0x00, 0x52, 0xAE]
   \<and> (\<exists>r'. finalize_input demo_collab (inputs demo_signed ! 0) = Inr r'
         \<and> final_script_witness r' = ['''', demo_sig1, demo_sig2, hex [0x52, 0xAE]]
         \<and> final_script_sig r' = [TStr (upper (hex [0x00, 0x52, 0xAE]))]
         \<and> (\<exists>p'. finalize_psbt demo_collab demo_signed = Inr p' \<and> inputs p' ! 0 = r'))"
proof -
  have h1: "0 < length (inputs demo_signed)" by (simp add: demo_inputs)
  have h2: "witness_script (inputs demo_signed ! 0) \<noteq> []"
    by (simp add: demo_inputs demo_input_fields)
  have h3: "partial_sigs (inputs demo_signed ! 0)
              = [(demo_pubkey1, demo_sig1), (demo_pubkey2, demo_sig2)]"
    by (simp add: demo_inputs)
  have h4: "script_encode demo_collab (witness_script (inputs demo_signed ! 0)) = Inr [0x52, 0xAE]"
    by (simp add: demo_inputs demo_input_fields demo_collab_simps demo_encodings)
  have h5: "script_encode demo_collab (redeem_script (inputs demo_signed ! 0))
              = Inr [0x00, 0x52, 0xAE]"
    by (simp add: demo_inputs demo_input_fields demo_collab_simps demo_encodings)
  have h6: "list_all (\<lambda>r. partial_sigs r \<noteq> []
               \<and> (\<exists>b. script_encode demo_collab (redeem_script r) = Inr b)
               \<and> (\<exists>b. script_encode demo_collab (witness_script r) = Inr b)) (inputs demo_signed)"
    by (simp add: demo_inputs demo_input_fields demo_collab_simps demo_encodings)
  from finalize_witness_script_2_of_2[OF h1 h2 h3 h4 h5] h6 h1 h2 h3 h4 h5
  show ?thesis by blast
qed

lemma demo_finalize_signed:
  "\<exists>p'. finalize_psbt demo_collab demo_signed = Inr p' \<and> inputs p' \<noteq> []
        \<and> tx p' = demo_tx"
  by (simp add: finalize_psbt_def finalize_input_def demo_inputs demo_input_fields
      demo_collab_simps demo_encodings demo_tx_of)

theorem finalize_psbt_precondition_witness:
  "list_ex (\<lambda>r. partial_sigs r = []) (inputs demo_unsigned)
   \<and> (\<exists>e. finalize_psbt demo_collab demo_unsigned = Inl e)
   \<and> (\<exists>p'. finalize_psbt demo_collab demo_signed = Inr p' \<and> inputs p' \<noteq> []
         \<and> list_all (\<lambda>r. partial_sigs r = [] \<and> sighash r = Some 0 \<and> redeem_script r = []
                      \<and> witness_script r = [] \<and> hd_keypaths r = []
                      \<and> por_commitment r = None \<and> final_script_sig r \<noteq> []) (inputs p')
         \<and> finalize_psbt demo_collab p' = Inl (AssertionError ''psbt_in.partial_sigs''))"
proof -
  have a: "list_ex (\<lambda>r. partial_sigs r = []) (inputs demo_unsigned)"
    by (simp add: demo_inputs PsbtInput_default_def)
  from demo_finalize_signed obtain p' where
    fin: "finalize_psbt demo_collab demo_signed = Inr p'" and ne: "inputs p' \<noteq> []" by blast
  from finalize_psbt_precondition[of demo_unsigned demo_collab p'] a
  have b: "\<exists>e. finalize_psbt demo_collab demo_unsigned = Inl e" by blast
  from finalize_psbt_precondition[of demo_signed demo_collab p'] fin ne a b
  show ?thesis by blast
qed

theorem extract_tx_mutates_bound_transaction_witness:
  "\<exists>p. finalize_psbt demo_collab demo_signed = Inr p
       \<and> length (inputs p) = length (vin (tx p)) \<and> vin (tx p) \<noteq> []
       \<and> (\<exists>t p'. extract_tx p = Inr (t, p') \<and> tx p' = t
              \<and> scriptSig (hd (vin (tx p'))) \<noteq> []
              \<and> Psbt_assert_valid demo_collab p' = Inl (AssertionError ''vin.scriptSig == []''))"
proof -
  obtain p where fin: "finalize_psbt demo_collab demo_signed = Inr p"
    and len: "length (inputs p) = length (vin (tx p))" and ne: "vin (tx p) \<noteq> []"
    by (auto simp: finalize_psbt_def finalize_input_def demo_inputs demo_input_fields
      demo_collab_simps demo_encodings demo_tx_of demo_tx_def)
  from extract_tx_mutates_bound_transaction[OF fin len ne] fin len ne
  show ?thesis by blast
qed

theorem assert_valid_script_without_utxo_unbound_witness:
  "list_all (\<lambda>v. scriptSig v = [] \<and> txinwitness v = []) (vin (tx demo_no_utxo))
   \<and> vin (tx demo_no_utxo) \<noteq> [] \<and> inputs demo_no_utxo \<noteq> []
   \<and> non_witness_utxo (hd (inputs demo_no_utxo)) = None
   \<and> witness_utxo (hd (inputs demo_no_utxo)) = None
   \<and> redeem_script (hd (inputs demo_no_utxo)) \<noteq> []
   \<and> script_encode demo_collab (redeem_script (hd (inputs demo_no_utxo))) = Inr [0x00, 0x52, 0xAE]
   \<and> script_encode demo_collab (witness_script (hd (inputs demo_no_utxo))) = Inr []
   \<and> Psbt_assert_valid demo_collab demo_no_utxo = Inl (UnboundLocalError ''scriptPubKey'')"
proof -
  have h1: "list_all (\<lambda>v. scriptSig v = [] \<and> txinwitness v = []) (vin (tx demo_no_utxo))"
    by (simp add: demo_tx_of demo_tx_def)
  have h2: "vin (tx demo_no_utxo) \<noteq> []" by (simp add: demo_tx_of demo_tx_def)
  have h3: "inputs demo_no_utxo \<noteq> []" by (simp add: demo_inputs)
  have h4: "non_witness_utxo (hd (inputs demo_no_utxo)) = None"
    by (simp add: demo_inputs PsbtInput_default_def)
  have h5: "witness_utxo (hd (inputs demo_no_utxo)) = None"
    by (simp add: demo_inputs PsbtInput_default_def)
  have h6': "redeem_script (hd (inputs demo_no_utxo)) \<noteq> []"
    by (simp add: demo_inputs PsbtInput_default_def)
  then have h6: "redeem_script (hd (inputs demo_no_utxo)) \<noteq> []
                 \<or> witness_script (hd (inputs demo_no_utxo)) \<noteq> []" by simp
  have h7: "script_encode demo_collab (redeem_script (hd (inputs demo_no_utxo)))
              = Inr [0x00, 0x52, 0xAE]"
    by (simp add: demo_inputs PsbtInput_default_def demo_collab_simps demo_encodings)
  have h8: "script_encode demo_collab (witness_script (hd (inputs demo_no_utxo))) = Inr []"
    by (simp add: demo_inputs PsbtInput_default_def demo_collab_simps demo_script_encode_Nil)
  from assert_valid_script_without_utxo_unbound[OF h1 h2 h3 h4 h5 h6 h7 h8]
    h1 h2 h3 h4 h5 h6' h7 h8
  show ?thesis by blast
qed

theorem partial_sig_key_of_65_bytes_witness:
  "length (replicate 65 (0x04 :: byte)) = 65
   \<and> PsbtInput_decode demo_collab [(0x02 # replicate 65 0x04, [0x30, 0x44])]
       = Inl (AssertionError ''len(key) == 33 + 1'')
   \<and> deserialize_partial_sigs (0x02 # replicate 65 0x04) [0x30, 0x44]
       = Inr [(replicate 65 0x04, [0x30, 0x44])]"
proof -
  have h: "length (replicate 65 (0x04 :: byte)) = 65" by simp
  from partial_sig_key_of_65_bytes[OF h, of demo_collab "[0x30, 0x44]"] h
  show ?thesis by blast
qed

lemma demo_tx_serialize:
  "Tx_serialize demo_collab w demo_tx =
     Inr (le_bytes 4 2 @ [1] @ (rev (replicate 32 0x11) @ le_bytes 4 0 @ [0] @ le_bytes 4 0)
          @ [1] @ (le_bytes 8 1000 @ [1, 0x51]) @ le_bytes 4 0)"
  by (simp add: Tx_serialize_def Tx_assert_valid_def demo_tx_def demo_collab_simps
      demo_txin_serialize_def demo_txout_serialize_def demo_script_serialize_def
      demo_script_encode_Cons demo_script_encode_Nil with_len_def
      fromhex_hex int_to_bytes_def varint_encode_def)

lemma demo_tx_txid: "\<exists>t. Tx_txid demo_collab demo_tx = Inr t"
  by (simp add: Tx_txid_def demo_tx_serialize)

lemma demo_pubkeys_distinct: "demo_pubkey1 \<noteq> demo_pubkey2"
proof
  assume "demo_pubkey1 = demo_pubkey2"
  then have "(0x02 # replicate 32 0x01 :: bytes) = 0x03 # replicate 32 0x02"
    unfolding demo_pubkey1_def demo_pubkey2_def by (rule hex_inj)
  then show False by simp
qed

lemma demo_keys_distinct:
  "Psbt_keys_distinct demo_signed"
  by (simp add: Psbt_keys_distinct_def PsbtInput_keys_distinct_def PsbtOutput_keys_distinct_def
      demo_signed_def demo_unsigned_def psbt_from_tx_def demo_tx_def demo_input_def
      PsbtInput_default_def PsbtOutput_default_def dict_keys_def demo_pubkeys_distinct)

theorem combine_psbts_idempotent_witness:
  "(\<exists>txid. Tx_txid demo_collab (tx demo_signed) = Inr txid)
   \<and> Psbt_keys_distinct demo_signed
   \<and> combine_psbts demo_collab [demo_signed, demo_signed] = Inr demo_signed"
proof -
  from demo_tx_txid obtain t where t: "Tx_txid demo_collab (tx demo_signed) = Inr t"
    by (auto simp: demo_tx_of)
  from combine_psbts_idempotent[OF t demo_keys_distinct] t demo_keys_distinct
  show ?thesis by blast
qed

theorem combine_psbts_unions_partial_sigs_witness:
  "(\<exists>txid. Tx_txid demo_collab (tx demo_signed1) = Inr txid
            \<and> Tx_txid demo_collab (tx demo_signed2) = Inr txid)
   \<and> length (inputs demo_signed2) \<le> length (inputs demo_signed1)
   \<and> length (outputs demo_signed2) \<le> length (outputs demo_signed1)
   \<and> PsbtInput_scalars_agree (inputs demo_signed1 ! 0) (inputs demo_signed2 ! 0)
   \<and> distinct (dict_keys (partial_sigs (inputs demo_signed2 ! 0)))
   \<and> (\<exists>C. combine_psbts demo_collab [demo_signed1, demo_signed2] = Inr C
          \<and> partial_sigs (inputs C ! 0)
               = [(demo_pubkey1, demo_sig1), (demo_pubkey2, demo_sig2)]
          \<and> map_of (partial_sigs (inputs C ! 0)) demo_pubkey1 = Some demo_sig1
          \<and> map_of (partial_sigs (inputs C ! 0)) demo_pubkey2 = Some demo_sig2)"
proof -
  from demo_tx_txid obtain t where t1: "Tx_txid demo_collab (tx demo_signed1) = Inr t"
    and t2: "Tx_txid demo_collab (tx demo_signed2) = Inr t"
    by (auto simp: demo_tx_of)
  have l1: "length (inputs demo_signed2) \<le> length (inputs demo_signed1)"
    by (simp add: demo_inputs)
  have l2: "length (outputs demo_signed2) \<le> length (outputs demo_signed1)"
    by (simp add: demo_signed1_def demo_signed2_def)
  have ag0: "PsbtInput_scalars_agree (inputs demo_signed1 ! 0) (inputs demo_signed2 ! 0)"
    by (simp add: demo_inputs PsbtInput_scalars_agree_def scalar_agrees_def)
  have d0: "distinct (dict_keys (partial_sigs (inputs demo_signed2 ! 0)))"
    by (simp add: demo_inputs dict_keys_def)
  have ag: "\<forall>i < length (inputs demo_signed2).
              PsbtInput_scalars_agree (inputs demo_signed1 ! i) (inputs demo_signed2 ! i)"
    using ag0 by (simp add: demo_inputs)
  have d: "\<forall>i < length (inputs demo_signed2).
              distinct (dict_keys (partial_sigs (inputs demo_signed2 ! i)))"
    using d0 by (simp add: demo_inputs)
  from combine_psbts_unions_partial_sigs[OF t1 t2 l1 l2 ag d] obtain C where
    C: "combine_psbts demo_collab [demo_signed1, demo_signed2] = Inr C"
    and u: "\<forall>i < length (inputs demo_signed2).
               partial_sigs (inputs C ! i)
                 = combine_dict (partial_sigs (inputs demo_signed1 ! i))
                     (partial_sigs (inputs demo_signed2 ! i))"
    by blast
  from u have ps: "partial_sigs (inputs C ! 0)
                     = [(demo_pubkey1, demo_sig1), (demo_pubkey2, demo_sig2)]"
    using demo_pubkeys_distinct
    by (simp add: demo_inputs combine_dict_def dict_update_def)
  have m1: "map_of (partial_sigs (inputs C ! 0)) demo_pubkey1 = Some demo_sig1"
    by (simp add: ps)
  have m2: "map_of (partial_sigs (inputs C ! 0)) demo_pubkey2 = Some demo_sig2"
    using demo_pubkeys_distinct by (simp add: ps)
  from t1 t2 l1 l2 ag0 d0 C ps m1 m2 show ?thesis by blast
qed

end
